theory Spec2Isabelle
  imports Complex_Main "HOL-Library.AList"
begin

text \<open>
  A shallow embedding of the feature pipeline of the water-level forecasting service
  (\<^verbatim>\<open>app/services/preprocessing_service.py\<close>) and of the recursive multi-horizon
  predictor (\<^verbatim>\<open>app/routers/predict.py\<close>).

  Conventions of the embedding.
  \<^item> A data frame is a row count together with an ordered association list of named
    columns; a column is a dtype tag and a list of cells; a cell is \<open>real option\<close>, where
    \<open>None\<close> stands for NaN, NaT and null. Timestamps are seconds since the epoch.
    Arithmetic on cells is exact (real numbers), so rounding effects of binary floating
    point are outside the model.
  \<^item> Every exception of the source is a value \<open>Inl e\<close> of the result type \<open>error + 'a\<close>.
  \<^item> A configuration dictionary is a record of optional entries (one field for every key
    the service reads); the dictionary of configurations is an association list from
    method identifiers to such records, so every configuration value is a dictionary.
  \<^item> The operations of the dataframe library (shift, diff, rolling, mode, groupby, sort)
    are modelled by the functions of the section on series operations, following the
    documented behaviour of the library. Sorting is modelled as a stable sort.
\<close>

section \<open>Errors raised by the service\<close>

datatype error = KeyError | ValueError | AttributeError | OverflowError | TypeError
  | HTTPException nat

fun fold_res :: "('a \<Rightarrow> 's \<Rightarrow> error + 's) \<Rightarrow> 'a list \<Rightarrow> 's \<Rightarrow> error + 's" where
  "fold_res f [] s = Inr s"
| "fold_res f (x # xs) s = (case f x s of Inl e \<Rightarrow> Inl e | Inr s' \<Rightarrow> fold_res f xs s')"

section \<open>Data frames\<close>

datatype dtype = Number | Datetime | Object

type_synonym cell = "real option"
type_synonym column = "dtype \<times> cell list"

record frame =
  nrows :: nat
  cols :: "(string \<times> column) list"

definition has_col :: "frame \<Rightarrow> string \<Rightarrow> bool" where
  "has_col df c = (map_of (cols df) c \<noteq> None)"

definition get_col :: "frame \<Rightarrow> string \<Rightarrow> error + column" where
  "get_col df c = (case map_of (cols df) c of None \<Rightarrow> Inl KeyError | Some v \<Rightarrow> Inr v)"

text \<open>Assigning a column replaces it in place when the name exists and appends it otherwise.\<close>

definition set_col :: "frame \<Rightarrow> string \<Rightarrow> column \<Rightarrow> frame" where
  "set_col df c v = df\<lparr>cols := AList.update c v (cols df)\<rparr>"

definition wf_frame :: "frame \<Rightarrow> bool" where
  "wf_frame df = (distinct (map fst (cols df)) \<and>
     list_all (\<lambda>(c, ty, xs). length xs = nrows df) (cols df))"

subsection \<open>Formatting integers as in an f-string\<close>

definition digit_char :: "nat \<Rightarrow> char" where
  "digit_char d = ''0123456789'' ! d"

fun str_nat :: "nat \<Rightarrow> string" where
  "str_nat n = (if n < 10 then [digit_char n] else str_nat (n div 10) @ [digit_char (n mod 10)])"

declare str_nat.simps [simp del]

definition str_int :: "int \<Rightarrow> string" where
  "str_int i = (if i < 0 then CHR ''-'' # str_nat (nat (- i)) else str_nat (nat i))"

subsection \<open>Series operations of the dataframe library\<close>

definition non_null :: "cell list \<Rightarrow> real list" where
  "non_null xs = concat (map (\<lambda>c. case c of None \<Rightarrow> [] | Some v \<Rightarrow> [v]) xs)"

text \<open>\<open>shift(k)\<close>: the value of row \<open>t\<close> moves to row \<open>t + k\<close>; vacated rows are null.\<close>

definition shift_pd :: "int \<Rightarrow> 'a option list \<Rightarrow> 'a option list" where
  "shift_pd k xs =
     (if k \<ge> 0 then take (length xs) (replicate (nat k) None @ xs)
      else drop (nat (- k)) xs @ replicate (min (nat (- k)) (length xs)) None)"

text \<open>\<open>unique()\<close> lists the values in order of first appearance; \<open>nunique()\<close> counts the
  distinct non-null values.\<close>

definition unique_pd :: "'a list \<Rightarrow> 'a list" where
  "unique_pd xs = rev (remdups (rev xs))"

definition nunique :: "cell list \<Rightarrow> nat" where
  "nunique xs = length (remdups (non_null xs))"

text \<open>Boolean-mask selection \<open>s[mask]\<close> and masked assignment \<open>s[mask] = values\<close>.\<close>

definition select_rows :: "bool list \<Rightarrow> 'a list \<Rightarrow> 'a list" where
  "select_rows msk xs = map snd (filter fst (zip msk xs))"

fun assign_rows :: "bool list \<Rightarrow> 'a list \<Rightarrow> 'a list \<Rightarrow> 'a list" where
  "assign_rows (m # ms) vs (x # xs) =
     (if m then (case vs of [] \<Rightarrow> x # assign_rows ms [] xs | v # vs' \<Rightarrow> v # assign_rows ms vs' xs)
      else x # assign_rows ms vs xs)"
| "assign_rows ms vs xs = xs"

definition eq_mask :: "cell list \<Rightarrow> real \<Rightarrow> bool list" where
  "eq_mask keys g = map (\<lambda>k. k = Some g) keys"

text \<open>\<open>groupby(key)[col].transform(f)\<close>: every group of rows with the same non-null key is
  transformed on its own and written back to the rows of the group; rows with a null key
  stay null.\<close>

definition groupby_transform :: "cell list \<Rightarrow> (cell list \<Rightarrow> cell list) \<Rightarrow> cell list \<Rightarrow> cell list" where
  "groupby_transform keys f vals =
     fold (\<lambda>g acc. assign_rows (eq_mask keys g) (f (select_rows (eq_mask keys g) vals)) acc)
       (unique_pd (non_null keys)) (replicate (length vals) None)"


text \<open>Row selection \<open>df[mask]\<close> and reordering of the rows of a frame.\<close>

definition filter_rows :: "bool list \<Rightarrow> frame \<Rightarrow> frame" where
  "filter_rows msk df =
     \<lparr>nrows = length (filter (\<lambda>b. b) msk),
      cols = map (\<lambda>(c, ty, xs). (c, ty, select_rows msk xs)) (cols df)\<rparr>"

definition take_rows :: "nat list \<Rightarrow> frame \<Rightarrow> frame" where
  "take_rows idx df =
     \<lparr>nrows = length idx, cols = map (\<lambda>(c, ty, xs). (c, ty, map ((!) xs) idx)) (cols df)\<rparr>"

text \<open>\<open>sort_values(c)\<close>: ascending, nulls last, ties in their original order.\<close>

definition sort_perm :: "cell list \<Rightarrow> nat list" where
  "sort_perm ks =
     sort_key (\<lambda>i. the (ks ! i)) (filter (\<lambda>i. ks ! i \<noteq> None) [0..<length ks]) @
     filter (\<lambda>i. ks ! i = None) [0..<length ks]"

definition sort_values :: "frame \<Rightarrow> string \<Rightarrow> error + frame" where
  "sort_values df c =
     (case get_col df c of Inl e \<Rightarrow> Inl e
      | Inr (ty, ks) \<Rightarrow> Inr (take_rows (sort_perm ks) df))"

text \<open>\<open>diff(k)\<close> is the series minus its shift by \<open>k\<close>.\<close>

definition sub_cell :: "cell \<Rightarrow> cell \<Rightarrow> cell" where
  "sub_cell a b = (case a of None \<Rightarrow> None | Some x \<Rightarrow> (case b of None \<Rightarrow> None | Some y \<Rightarrow> Some (x - y)))"

definition diff_pd :: "int \<Rightarrow> cell list \<Rightarrow> cell list" where
  "diff_pd k xs = map (\<lambda>(a, b). sub_cell a b) (zip xs (shift_pd k xs))"

text \<open>\<open>mode()\<close> drops nulls and returns the most frequent values in ascending order
  (every value when none is repeated, nothing for an empty series).\<close>

definition mode_pd :: "real list \<Rightarrow> real list" where
  "mode_pd xs = (let m = fold max (map (count_list xs) xs) 0
                 in sort (remdups (filter (\<lambda>x. count_list xs x = m) xs)))"

text \<open>Aggregates skip nulls. The standard deviation is the sample deviation (one degree
  of freedom removed), so it is null for fewer than two observations.\<close>

definition mean_list :: "real list \<Rightarrow> cell" where
  "mean_list vs = (if vs = [] then None else Some (sum_list vs / real (length vs)))"

definition std_list :: "real list \<Rightarrow> cell" where
  "std_list vs =
     (if length vs \<le> 1 then None
      else Some (sqrt (sum_list (map (\<lambda>v. (v - sum_list vs / real (length vs))\<^sup>2) vs)
                       / real (length vs - 1))))"

definition sum_cell :: "real list \<Rightarrow> cell" where
  "sum_cell vs = Some (sum_list vs)"

definition median_list :: "real list \<Rightarrow> cell" where
  "median_list vs =
     (let s = sort vs; n = length s
      in if n = 0 then None
         else if odd n then Some (s ! (n div 2))
         else Some ((s ! (n div 2 - 1) + s ! (n div 2)) / 2))"

definition fillna :: "cell \<Rightarrow> cell list \<Rightarrow> cell list" where
  "fillna v xs = map (\<lambda>c. case c of None \<Rightarrow> v | Some x \<Rightarrow> Some x) xs"

text \<open>\<open>rolling(window, min_periods)\<close>: the trailing window of \<open>window\<close> rows ending at
  the current row; the aggregate is taken over the non-null values of the window when
  there are at least \<open>min_periods\<close> of them, and the result is null otherwise. The
  constructor rejects a negative window, a negative \<open>min_periods\<close> and a
  \<open>min_periods\<close> above the window.\<close>

definition window_vals :: "nat \<Rightarrow> cell list \<Rightarrow> nat \<Rightarrow> real list" where
  "window_vals w xs t = non_null (drop (Suc t - w) (take (Suc t) xs))"

definition rolling_ok :: "int \<Rightarrow> int \<Rightarrow> bool" where
  "rolling_ok window mp = (0 \<le> window \<and> 0 \<le> mp \<and> mp \<le> window)"

definition rolling_pd :: "int \<Rightarrow> int \<Rightarrow> (real list \<Rightarrow> cell) \<Rightarrow> cell list \<Rightarrow> cell list" where
  "rolling_pd window mp agg xs =
     map (\<lambda>t. let vs = window_vals (nat window) xs t
              in if mp \<le> int (length vs) then agg vs else None) [0..<length xs]"

text \<open>\<open>int(x)\<close> truncates towards zero.\<close>

definition py_int :: "real \<Rightarrow> int" where
  "py_int x = (if x \<ge> 0 then \<lfloor>x\<rfloor> else \<lceil>x\<rceil>)"

text \<open>Substring and prefix tests on column names.\<close>

fun starts_with :: "string \<Rightarrow> string \<Rightarrow> bool" where
  "starts_with s [] = True"
| "starts_with [] (p # ps) = False"
| "starts_with (c # cs) (p # ps) = (c = p \<and> starts_with cs ps)"

fun contains_str :: "string \<Rightarrow> string \<Rightarrow> bool" where
  "contains_str [] p = (p = [])"
| "contains_str (c # cs) p = (starts_with (c # cs) p \<or> contains_str cs p)"

section \<open>Configuration\<close>

record config =
  cfg_enabled :: "bool option"
  cfg_lag_periods :: "int list option"
  cfg_windows :: "int list option"
  cfg_statistics :: "string list option"
  cfg_min_periods :: "int option"
  cfg_periods :: "int list option"
  cfg_hour_cycle :: "real option"
  cfg_month_cycle :: "real option"
  cfg_prediction_horizons :: "int list option"
  cfg_remove_rows_with_missing_lags :: "bool option"
  cfg_missing_value_strategy :: "string option"

definition cfg_get :: "'a option \<Rightarrow> 'a \<Rightarrow> 'a" where
  "cfg_get v d = (case v of None \<Rightarrow> d | Some x \<Rightarrow> x)"

definition empty_config :: config where
  "empty_config = \<lparr>cfg_enabled = None, cfg_lag_periods = None, cfg_windows = None,
     cfg_statistics = None, cfg_min_periods = None, cfg_periods = None, cfg_hour_cycle = None,
     cfg_month_cycle = None, cfg_prediction_horizons = None,
     cfg_remove_rows_with_missing_lags = None, cfg_missing_value_strategy = None\<rparr>"

type_synonym configs = "(string \<times> config) list"

definition has_multiple_stations :: "frame \<Rightarrow> bool" where
  "has_multiple_stations df =
     (case map_of (cols df) ''station_id'' of None \<Rightarrow> False | Some (ty, xs) \<Rightarrow> nunique xs > 1)"

definition groupby_station :: "frame \<Rightarrow> string \<Rightarrow> (cell list \<Rightarrow> cell list) \<Rightarrow> error + column" where
  "groupby_station df c f =
     (case get_col df ''station_id'' of Inl e \<Rightarrow> Inl e
      | Inr (kty, keys) \<Rightarrow>
          (case get_col df c of Inl e \<Rightarrow> Inl e
           | Inr (ty, xs) \<Rightarrow> Inr (ty, groupby_transform keys f xs)))"


text \<open>The cells of the \<open>station_id\<close> column. The transforms read them only where the
  column is known to exist (the multi-station branch).\<close>

definition station_keys :: "frame \<Rightarrow> cell list" where
  "station_keys df =
     (case map_of (cols df) ''station_id'' of None \<Rightarrow> replicate (nrows df) None | Some (ty, xs) \<Rightarrow> xs)"

section \<open>Interval estimator\<close>

text \<open>
  \<^verbatim>\<open>time_diffs = sdf['measured_at'].diff().dt.total_seconds() / 60\<close>,
  \<^verbatim>\<open>mode_interval = time_diffs.mode().values[0] if len(time_diffs.mode()) > 0 else 30\<close>.
  The accessor \<open>.dt\<close> exists on datetime columns only.
\<close>

definition detect_mode_interval :: "frame \<Rightarrow> error + real" where
  "detect_mode_interval sdf =
     (case get_col sdf ''measured_at'' of Inl e \<Rightarrow> Inl e
      | Inr (ty, ts) \<Rightarrow>
          if ty \<noteq> Datetime then Inl AttributeError
          else (let time_diffs = map (map_option (\<lambda>d. d / 60)) (diff_pd 1 ts);
                    modes = mode_pd (non_null time_diffs)
                in Inr (if length modes > 0 then hd modes else 30)))"

text \<open>
  \<^verbatim>\<open>periods_per_hour = 60 / mode_interval\<close> is a floating-point division: for a zero
  interval it yields infinity rather than raising, written \<open>None\<close> here. Then
  \<^verbatim>\<open>int(lag * periods_per_hour)\<close> raises \<open>OverflowError\<close> on infinity and
  \<open>ValueError\<close> on NaN (zero times infinity).
\<close>

definition periods_per_hour :: "real \<Rightarrow> real option" where
  "periods_per_hour mode_interval = (if mode_interval = 0 then None else Some (60 / mode_interval))"

definition to_periods :: "int \<Rightarrow> real option \<Rightarrow> error + int" where
  "to_periods hours pph =
     (case pph of None \<Rightarrow> Inl (if hours = 0 then ValueError else OverflowError)
      | Some p \<Rightarrow> Inr (py_int (of_int hours * p)))"

section \<open>Feature transforms\<close>

text \<open>\<^verbatim>\<open>if col_name not in df.columns: df[col_name] = np.nan\<close>\<close>

definition ensure_col :: "frame \<Rightarrow> string \<Rightarrow> frame" where
  "ensure_col df c = (if has_col df c then df else set_col df c (Number, replicate (nrows df) None))"

text \<open>\<^verbatim>\<open>df.loc[station_mask, col_name] = values\<close>\<close>

definition assign_masked :: "frame \<Rightarrow> bool list \<Rightarrow> string \<Rightarrow> cell list \<Rightarrow> error + frame" where
  "assign_masked df msk c vals =
     (case get_col df c of Inl e \<Rightarrow> Inl e
      | Inr (ty, old) \<Rightarrow> Inr (set_col df c (ty, assign_rows msk vals old)))"

subsection \<open>Lag features\<close>

definition lag_name :: "int \<Rightarrow> string" where
  "lag_name lag = ''water_level_lag_'' @ str_int lag @ ''h''"

definition lag_station_step :: "frame \<Rightarrow> bool list \<Rightarrow> real option \<Rightarrow> int \<Rightarrow> frame \<Rightarrow> error + frame" where
  "lag_station_step station_df station_mask pph lag df =
     (case to_periods lag pph of Inl e \<Rightarrow> Inl e
      | Inr shift_periods \<Rightarrow>
          (let col_name = lag_name lag; df1 = ensure_col df col_name
           in case get_col station_df ''water_level'' of Inl e \<Rightarrow> Inl e
              | Inr (ty, wl) \<Rightarrow> assign_masked df1 station_mask col_name (shift_pd shift_periods wl)))"

definition lag_station :: "int list \<Rightarrow> cell \<Rightarrow> frame \<Rightarrow> error + frame" where
  "lag_station lag_periods station_id df =
     (let station_mask = map (\<lambda>k. station_id \<noteq> None \<and> k = station_id) (station_keys df)
      in case sort_values (filter_rows station_mask df) ''measured_at'' of Inl e \<Rightarrow> Inl e
         | Inr station_df \<Rightarrow>
             if nrows station_df > 1 then
               (case detect_mode_interval station_df of Inl e \<Rightarrow> Inl e
                | Inr mode_interval \<Rightarrow>
                    fold_res (lag_station_step station_df station_mask (periods_per_hour mode_interval))
                      lag_periods df)
             else Inr df)"

definition lag_single_step :: "real option \<Rightarrow> int \<Rightarrow> frame \<Rightarrow> error + frame" where
  "lag_single_step pph lag df =
     (case to_periods lag pph of Inl e \<Rightarrow> Inl e
      | Inr shift_periods \<Rightarrow>
          (case get_col df ''water_level'' of Inl e \<Rightarrow> Inl e
           | Inr (ty, wl) \<Rightarrow> Inr (set_col df (lag_name lag) (ty, shift_pd shift_periods wl))))"

definition apply_lag_features :: "frame \<Rightarrow> config \<Rightarrow> error + frame" where
  "apply_lag_features df config =
     (let lag_periods = cfg_get (cfg_lag_periods config) [1, 2, 3, 6, 12]
      in if has_multiple_stations df then
           fold_res (lag_station lag_periods) (unique_pd (station_keys df)) df
         else if nrows df > 1 then
           (case sort_values df ''measured_at'' of Inl e \<Rightarrow> Inl e
            | Inr sorted_df \<Rightarrow>
                (case detect_mode_interval sorted_df of Inl e \<Rightarrow> Inl e
                 | Inr mode_interval \<Rightarrow>
                     fold_res (lag_single_step (periods_per_hour mode_interval)) lag_periods df))
         else Inr df)"

subsection \<open>Rolling statistics\<close>

definition rolling_name :: "string \<Rightarrow> int \<Rightarrow> string" where
  "rolling_name stat window = ''water_level_rolling_'' @ stat @ ''_'' @ str_int window @ ''h''"

definition rolling_station_stat ::
  "frame \<Rightarrow> bool list \<Rightarrow> string \<Rightarrow> (real list \<Rightarrow> cell) \<Rightarrow> int \<Rightarrow> int \<Rightarrow> int \<Rightarrow> frame \<Rightarrow> error + frame" where
  "rolling_station_stat station_df station_mask stat agg window window_periods mp df =
     (let col_name = rolling_name stat window; df1 = ensure_col df col_name
      in case get_col station_df ''water_level'' of Inl e \<Rightarrow> Inl e
         | Inr (ty, wl) \<Rightarrow>
             if \<not> rolling_ok window_periods mp then Inl ValueError
             else assign_masked df1 station_mask col_name (rolling_pd window_periods mp agg wl))"

definition rolling_station_step ::
  "frame \<Rightarrow> bool list \<Rightarrow> real option \<Rightarrow> string list \<Rightarrow> int \<Rightarrow> int \<Rightarrow> frame \<Rightarrow> error + frame" where
  "rolling_station_step station_df station_mask pph stats mp window df =
     (case to_periods window pph of Inl e \<Rightarrow> Inl e
      | Inr window_periods \<Rightarrow>
          (case (if ''mean'' \<in> set stats
                 then rolling_station_stat station_df station_mask ''mean'' mean_list window window_periods mp df
                 else Inr df) of
             Inl e \<Rightarrow> Inl e
           | Inr df1 \<Rightarrow>
               if ''std'' \<in> set stats
               then rolling_station_stat station_df station_mask ''std'' std_list window window_periods mp df1
               else Inr df1))"

definition rolling_station :: "int list \<Rightarrow> string list \<Rightarrow> int \<Rightarrow> cell \<Rightarrow> frame \<Rightarrow> error + frame" where
  "rolling_station windows stats mp station_id df =
     (let station_mask = map (\<lambda>k. station_id \<noteq> None \<and> k = station_id) (station_keys df)
      in case sort_values (filter_rows station_mask df) ''measured_at'' of Inl e \<Rightarrow> Inl e
         | Inr station_df \<Rightarrow>
             if nrows station_df > 1 then
               (case detect_mode_interval station_df of Inl e \<Rightarrow> Inl e
                | Inr mode_interval \<Rightarrow>
                    fold_res (rolling_station_step station_df station_mask (periods_per_hour mode_interval) stats mp)
                      windows df)
             else Inr df)"

definition rolling_single_stat ::
  "string \<Rightarrow> (real list \<Rightarrow> cell) \<Rightarrow> int \<Rightarrow> int \<Rightarrow> int \<Rightarrow> frame \<Rightarrow> error + frame" where
  "rolling_single_stat stat agg window window_periods mp df =
     (case get_col df ''water_level'' of Inl e \<Rightarrow> Inl e
      | Inr (ty, wl) \<Rightarrow>
          if \<not> rolling_ok window_periods mp then Inl ValueError
          else Inr (set_col df (rolling_name stat window) (ty, rolling_pd window_periods mp agg wl)))"

definition rolling_single_step :: "real option \<Rightarrow> string list \<Rightarrow> int \<Rightarrow> int \<Rightarrow> frame \<Rightarrow> error + frame" where
  "rolling_single_step pph stats mp window df =
     (case to_periods window pph of Inl e \<Rightarrow> Inl e
      | Inr window_periods \<Rightarrow>
          (case (if ''mean'' \<in> set stats
                 then rolling_single_stat ''mean'' mean_list window window_periods mp df
                 else Inr df) of
             Inl e \<Rightarrow> Inl e
           | Inr df1 \<Rightarrow>
               if ''std'' \<in> set stats
               then rolling_single_stat ''std'' std_list window window_periods mp df1
               else Inr df1))"

definition apply_rolling_statistics :: "frame \<Rightarrow> config \<Rightarrow> error + frame" where
  "apply_rolling_statistics df config =
     (let windows = cfg_get (cfg_windows config) [3, 6, 12, 24];
          stats = cfg_get (cfg_statistics config) [''mean'', ''std''];
          mp = cfg_get (cfg_min_periods config) 1
      in if has_multiple_stations df then
           fold_res (rolling_station windows stats mp) (unique_pd (station_keys df)) df
         else if nrows df > 1 then
           (case sort_values df ''measured_at'' of Inl e \<Rightarrow> Inl e
            | Inr sorted_df \<Rightarrow>
                (case detect_mode_interval sorted_df of Inl e \<Rightarrow> Inl e
                 | Inr mode_interval \<Rightarrow>
                     fold_res (rolling_single_step (periods_per_hour mode_interval) stats mp) windows df))
         else Inr df)"

subsection \<open>Rate of change\<close>

definition change_name :: "int \<Rightarrow> string" where
  "change_name period = ''water_level_change_'' @ str_int period @ ''h''"

definition change_station_step :: "frame \<Rightarrow> bool list \<Rightarrow> real option \<Rightarrow> int \<Rightarrow> frame \<Rightarrow> error + frame" where
  "change_station_step station_df station_mask pph period df =
     (case to_periods period pph of Inl e \<Rightarrow> Inl e
      | Inr shift_periods \<Rightarrow>
          (let col_name = change_name period; df1 = ensure_col df col_name
           in case get_col station_df ''water_level'' of Inl e \<Rightarrow> Inl e
              | Inr (ty, wl) \<Rightarrow> assign_masked df1 station_mask col_name (diff_pd shift_periods wl)))"

definition change_station :: "int list \<Rightarrow> cell \<Rightarrow> frame \<Rightarrow> error + frame" where
  "change_station periods station_id df =
     (let station_mask = map (\<lambda>k. station_id \<noteq> None \<and> k = station_id) (station_keys df)
      in case sort_values (filter_rows station_mask df) ''measured_at'' of Inl e \<Rightarrow> Inl e
         | Inr station_df \<Rightarrow>
             if nrows station_df > 1 then
               (case detect_mode_interval station_df of Inl e \<Rightarrow> Inl e
                | Inr mode_interval \<Rightarrow>
                    fold_res (change_station_step station_df station_mask (periods_per_hour mode_interval))
                      periods df)
             else Inr df)"

definition change_single_step :: "real option \<Rightarrow> int \<Rightarrow> frame \<Rightarrow> error + frame" where
  "change_single_step pph period df =
     (case to_periods period pph of Inl e \<Rightarrow> Inl e
      | Inr shift_periods \<Rightarrow>
          (case get_col df ''water_level'' of Inl e \<Rightarrow> Inl e
           | Inr (ty, wl) \<Rightarrow> Inr (set_col df (change_name period) (ty, diff_pd shift_periods wl))))"

definition apply_rate_of_change :: "frame \<Rightarrow> config \<Rightarrow> error + frame" where
  "apply_rate_of_change df config =
     (let periods = cfg_get (cfg_periods config) [1, 3, 6]
      in if has_multiple_stations df then
           fold_res (change_station periods) (unique_pd (station_keys df)) df
         else if nrows df > 1 then
           (case sort_values df ''measured_at'' of Inl e \<Rightarrow> Inl e
            | Inr sorted_df \<Rightarrow>
                (case detect_mode_interval sorted_df of Inl e \<Rightarrow> Inl e
                 | Inr mode_interval \<Rightarrow>
                     fold_res (change_single_step (periods_per_hour mode_interval)) periods df))
         else Inr df)"

subsection \<open>Time features\<close>

text \<open>The calendar fields of a timestamp given in seconds since the epoch (UTC), as the
  accessor \<open>.dt\<close> of the dataframe library returns them: Monday is day 0 of the week.\<close>

definition civil_from_days :: "int \<Rightarrow> int \<times> int \<times> int" where
  "civil_from_days days =
     (let z = days + 719468;
          era = z div 146097;
          doe = z - era * 146097;
          yoe = (doe - doe div 1460 + doe div 36524 - doe div 146096) div 365;
          doy = doe - (365 * yoe + yoe div 4 - yoe div 100);
          mp = (5 * doy + 2) div 153;
          d = doy - (153 * mp + 2) div 5 + 1;
          m = (if mp < 10 then mp + 3 else mp - 9);
          y = yoe + era * 400 + (if m \<le> 2 then 1 else 0)
      in (y, m, d))"

definition dt_hour :: "real \<Rightarrow> real" where
  "dt_hour v = of_int ((\<lfloor>v\<rfloor> mod 86400) div 3600)"

definition dt_dayofweek :: "real \<Rightarrow> real" where
  "dt_dayofweek v = of_int ((\<lfloor>v\<rfloor> div 86400 + 3) mod 7)"

definition dt_day :: "real \<Rightarrow> real" where
  "dt_day v = of_int (snd (snd (civil_from_days (\<lfloor>v\<rfloor> div 86400))))"

definition dt_month :: "real \<Rightarrow> real" where
  "dt_month v = of_int (fst (snd (civil_from_days (\<lfloor>v\<rfloor> div 86400))))"

text \<open>A division by a zero cycle yields infinity or NaN, whose sine and cosine are NaN.\<close>

definition cyclical :: "(real \<Rightarrow> real) \<Rightarrow> real \<Rightarrow> cell \<Rightarrow> cell" where
  "cyclical f cycle c =
     (case c of None \<Rightarrow> None
      | Some v \<Rightarrow> if cycle = 0 then None else Some (f (2 * pi * v / cycle)))"

definition apply_time_features :: "frame \<Rightarrow> config \<Rightarrow> error + frame" where
  "apply_time_features df config =
     (case get_col df ''measured_at'' of Inl e \<Rightarrow> Inl e
      | Inr (ty, ts) \<Rightarrow>
          if ty \<noteq> Datetime then Inl AttributeError
          else
            (let hour = map (map_option dt_hour) ts;
                 day_of_week = map (map_option dt_dayofweek) ts;
                 month = map (map_option dt_month) ts;
                 df = set_col df ''hour'' (Number, hour);
                 df = set_col df ''day_of_week'' (Number, day_of_week);
                 df = set_col df ''day_of_month'' (Number, map (map_option dt_day) ts);
                 df = set_col df ''month'' (Number, month);
                 df = set_col df ''is_weekend''
                        (Number, map (\<lambda>c. case c of None \<Rightarrow> Some 0
                                          | Some d \<Rightarrow> Some (if d \<ge> 5 then 1 else 0)) day_of_week);
                 hour_cycle = cfg_get (cfg_hour_cycle config) 24;
                 month_cycle = cfg_get (cfg_month_cycle config) 12;
                 df = set_col df ''hour_sin'' (Number, map (cyclical sin hour_cycle) hour);
                 df = set_col df ''hour_cos'' (Number, map (cyclical cos hour_cycle) hour);
                 df = set_col df ''month_sin''
                        (Number, map (\<lambda>c. cyclical sin month_cycle (map_option (\<lambda>m. m - 1) c)) month);
                 df = set_col df ''month_cos''
                        (Number, map (\<lambda>c. cyclical cos month_cycle (map_option (\<lambda>m. m - 1) c)) month)
             in Inr df))"

subsection \<open>Rainfall features\<close>

definition rain_name :: "int \<Rightarrow> string" where
  "rain_name window = ''rainfall_sum_'' @ str_int window @ ''h''"

definition rainfall_step :: "bool \<Rightarrow> int \<Rightarrow> frame \<Rightarrow> error + frame" where
  "rainfall_step multi window df =
     (case get_col df ''rainfall_1h'' of Inl e \<Rightarrow> Inl e
      | Inr (ty, xs) \<Rightarrow>
          if \<not> rolling_ok window 1 then Inl ValueError
          else if multi then
            Inr (set_col df (rain_name window)
                   (Number, groupby_transform (station_keys df) (rolling_pd window 1 sum_cell) xs))
          else Inr (set_col df (rain_name window) (Number, rolling_pd window 1 sum_cell xs)))"

definition apply_rainfall_features :: "frame \<Rightarrow> config \<Rightarrow> error + frame" where
  "apply_rainfall_features df config =
     (if \<not> has_col df ''rainfall_1h'' then Inr df
      else
        (let windows = cfg_get (cfg_windows config) [3, 6, 12, 24]
         in fold_res (rainfall_step (has_multiple_stations df)) windows df))"

subsection \<open>Weather interactions\<close>

definition mul_cell :: "cell \<Rightarrow> cell \<Rightarrow> cell" where
  "mul_cell a b = (case a of None \<Rightarrow> None | Some x \<Rightarrow> (case b of None \<Rightarrow> None | Some y \<Rightarrow> Some (x * y)))"

definition apply_weather_interactions :: "frame \<Rightarrow> config \<Rightarrow> error + frame" where
  "apply_weather_interactions df config =
     (let df1 =
        (case (map_of (cols df) ''temperature'', map_of (cols df) ''humidity'') of
           (Some (tty, temp), Some (hty, hum)) \<Rightarrow>
             set_col df ''temp_humidity_interaction''
               (Number, map (\<lambda>(a, b). map_option (\<lambda>v. v / 100) (mul_cell a b)) (zip temp hum))
         | _ \<Rightarrow> df)
      in case map_of (cols df1) ''pressure'' of
           None \<Rightarrow> Inr df1
         | Some (pty, pressure) \<Rightarrow>
             if has_multiple_stations df1 then
               Inr (set_col df1 ''pressure_diff_3h''
                      (Number, groupby_transform (station_keys df1) (diff_pd 3) pressure))
             else Inr (set_col df1 ''pressure_diff_3h'' (Number, diff_pd 3 pressure)))"

subsection \<open>Station statistics\<close>

definition broadcast :: "(real list \<Rightarrow> cell) \<Rightarrow> cell list \<Rightarrow> cell list" where
  "broadcast agg xs = replicate (length xs) (agg (non_null xs))"

definition apply_station_statistics :: "frame \<Rightarrow> config \<Rightarrow> error + frame" where
  "apply_station_statistics df config =
     (case get_col df ''water_level'' of Inl e \<Rightarrow> Inl e
      | Inr (ty, wl) \<Rightarrow>
          if has_multiple_stations df then
            (let station_water_mean = groupby_transform (station_keys df) (broadcast mean_list) wl;
                 df = set_col df ''station_water_mean'' (Number, station_water_mean);
                 df = set_col df ''station_water_std''
                        (Number, groupby_transform (station_keys df) (broadcast std_list) wl);
                 df = set_col df ''water_level_deviation''
                        (Number, map (\<lambda>(a, b). sub_cell a b) (zip wl station_water_mean))
             in Inr df)
          else
            (let station_mean = mean_list (non_null wl);
                 station_std = std_list (non_null wl);
                 df = set_col df ''station_water_mean'' (Number, replicate (nrows df) station_mean);
                 df = set_col df ''station_water_std'' (Number, replicate (nrows df) station_std);
                 df = set_col df ''water_level_deviation''
                        (Number, map (\<lambda>a. sub_cell a station_mean) wl)
             in Inr df))"

section \<open>Target constructor\<close>

definition target_name :: "int \<Rightarrow> string" where
  "target_name horizon = ''target_'' @ str_int horizon @ ''min''"

definition target_step :: "bool \<Rightarrow> int \<Rightarrow> frame \<Rightarrow> error + frame" where
  "target_step multi horizon df =
     (let shift_periods = horizon div 15 in
      if multi then
        (case groupby_station df ''water_level'' (shift_pd (- shift_periods)) of
           Inl e \<Rightarrow> Inl e
         | Inr c \<Rightarrow> Inr (set_col df (target_name horizon) c))
      else
        (case get_col df ''water_level'' of
           Inl e \<Rightarrow> Inl e
         | Inr (ty, xs) \<Rightarrow> Inr (set_col df (target_name horizon) (ty, shift_pd (- shift_periods) xs))))"

definition create_targets :: "frame \<Rightarrow> config \<Rightarrow> error + frame" where
  "create_targets df config =
     (let horizons = cfg_get (cfg_prediction_horizons config) [15, 30, 45, 60, 90];
          multi = has_multiple_stations df
      in fold_res (target_step multi) horizons df)"

section \<open>Data cleaner\<close>

text \<open>\<open>dropna(subset=cs)\<close> keeps the rows that are non-null in every column of \<open>cs\<close>.\<close>

definition notnull_mask :: "frame \<Rightarrow> string list \<Rightarrow> bool list" where
  "notnull_mask df cs =
     map (\<lambda>t. list_all (\<lambda>c. case map_of (cols df) c of None \<Rightarrow> True
                                | Some (ty, xs) \<Rightarrow> xs ! t \<noteq> None) cs) [0..<nrows df]"

definition dropna :: "frame \<Rightarrow> string list \<Rightarrow> frame" where
  "dropna df cs = filter_rows (notnull_mask df cs) df"

definition impute_col :: "(real list \<Rightarrow> cell) \<Rightarrow> string \<Rightarrow> frame \<Rightarrow> frame" where
  "impute_col agg c df =
     (case map_of (cols df) c of None \<Rightarrow> df
      | Some (ty, xs) \<Rightarrow>
          if list_ex (\<lambda>x. x = None) xs then set_col df c (ty, fillna (agg (non_null xs)) xs)
          else df)"

definition clean_data :: "frame \<Rightarrow> config \<Rightarrow> frame" where
  "clean_data df0 config =
     (let df =
        (if cfg_get (cfg_remove_rows_with_missing_lags config) True then
           (let lag_cols = filter (\<lambda>c. contains_str c ''lag_'') (map fst (cols df0))
            in if lag_cols \<noteq> [] then dropna df0 lag_cols else df0)
         else df0);
          strategy = cfg_get (cfg_missing_value_strategy config) ''median'';
          exclude_cols = [''measured_at'', ''created_at'', ''id'', ''station_id''];
          numeric_cols = filter (\<lambda>c. c \<notin> set exclude_cols)
                           (map fst (filter (\<lambda>(c, ty, xs). ty = Number) (cols df)))
      in if strategy = ''median'' then fold (impute_col median_list) numeric_cols df
         else if strategy = ''mean'' then fold (impute_col mean_list) numeric_cols df
         else df)"

section \<open>Fetching the measurements\<close>

definition col_cells :: "frame \<Rightarrow> string \<Rightarrow> cell list" where
  "col_cells df c =
     (case map_of (cols df) c of None \<Rightarrow> replicate (nrows df) None | Some (ty, xs) \<Rightarrow> xs)"

definition isin_mask :: "cell list \<Rightarrow> real list \<Rightarrow> bool list" where
  "isin_mask xs vs = map (\<lambda>c. case c of None \<Rightarrow> False | Some v \<Rightarrow> v \<in> set vs) xs"

definition rename_cols :: "(string \<times> string) list \<Rightarrow> frame \<Rightarrow> frame" where
  "rename_cols m df =
     df\<lparr>cols := map (\<lambda>(c, v). (case map_of m c of None \<Rightarrow> c | Some c' \<Rightarrow> c', v)) (cols df)\<rparr>"

definition drop_cols :: "string list \<Rightarrow> frame \<Rightarrow> frame" where
  "drop_cols cs df = df\<lparr>cols := filter (\<lambda>(c, v). c \<notin> set cs) (cols df)\<rparr>"

text \<open>
  The body of the \<^verbatim>\<open>try\<close> block of \<^verbatim>\<open>get_station_data\<close>, applied to the frame that
  the weather-merge collaborator returned. Every exception raised here is caught by the
  caller, which then falls back to the station table.
\<close>

definition merged_station_data :: "int option \<Rightarrow> frame \<Rightarrow> error + frame" where
  "merged_station_data station_id df_merged0 =
     (let df_merged = rename_cols [(''id_station'', ''id''), (''station_id_station'', ''station_id''),
                                    (''created_at_station'', ''created_at'')] df_merged0;
          df_merged = drop_cols [''id_weather'', ''station_id_weather'', ''created_at_weather'',
                                 ''rainfall_7to7'', ''flow_rate'', ''rainfall''] df_merged
      in case get_col df_merged ''station_id'' of Inl e \<Rightarrow> Inl e
         | Inr (ty, sid) \<Rightarrow>
             (let df_merged = filter_rows (map Not (isin_mask sid [1, 7])) df_merged
              in case station_id of
                   None \<Rightarrow> sort_values df_merged ''measured_at''
                 | Some s \<Rightarrow>
                     if s \<in> set [1, 7] then Inl ValueError
                     else
                       (let df_merged = filter_rows (eq_mask (station_keys df_merged) (of_int s)) df_merged
                        in if nrows df_merged = 0 then Inl ValueError
                           else sort_values df_merged ''measured_at'')))"

text \<open>
  The query on the station table. The table is given as a frame; the filters of the query
  (excluded stations, requested station, date bounds) select its rows, and a null never
  satisfies a filter. The date bounds are given as instants. The paginated fetch returns
  all selected rows in the order of \<open>measured_at\<close>.
\<close>

definition bound_mask :: "(real \<Rightarrow> bool) \<Rightarrow> cell list \<Rightarrow> bool list" where
  "bound_mask p xs = map (\<lambda>c. case c of None \<Rightarrow> False | Some v \<Rightarrow> p v) xs"

definition table_station_data :: "int option \<Rightarrow> real option \<Rightarrow> real option \<Rightarrow> frame \<Rightarrow> error + frame" where
  "table_station_data station_id start_date end_date table =
     (let query = filter_rows (bound_mask (\<lambda>v. v \<notin> set [1, 7]) (station_keys table)) table
      in if (case station_id of None \<Rightarrow> False | Some s \<Rightarrow> s \<in> set [1, 7]) then Inl ValueError
         else
           (let query = (case station_id of None \<Rightarrow> query
                         | Some s \<Rightarrow> filter_rows (eq_mask (station_keys query) (of_int s)) query);
                query = (case start_date of None \<Rightarrow> query
                         | Some lo \<Rightarrow> filter_rows (bound_mask (\<lambda>v. lo \<le> v) (col_cells query ''measured_at'')) query);
                query = (case end_date of None \<Rightarrow> query
                         | Some hi \<Rightarrow> filter_rows (bound_mask (\<lambda>v. v \<le> hi) (col_cells query ''measured_at'')) query)
            in case sort_values query ''measured_at'' of Inl e \<Rightarrow> Inl e
               | Inr all_data \<Rightarrow>
                   if nrows all_data = 0 then Inl ValueError
                   else
                     (case get_col all_data ''measured_at'' of Inl e \<Rightarrow> Inl e
                      | Inr (ty, ts) \<Rightarrow>
                          (let df = set_col all_data ''measured_at'' (Datetime, ts);
                               df = drop_cols [''rainfall_7to7'', ''flow_rate'', ''rainfall''] df
                           in sort_values df ''measured_at''))))"

definition get_station_data ::
  "int option \<Rightarrow> real option \<Rightarrow> real option \<Rightarrow> bool \<Rightarrow> error + frame \<Rightarrow> frame \<Rightarrow> error + frame" where
  "get_station_data station_id start_date end_date include_weather merge_result table =
     (if include_weather then
        (case (case merge_result of Inl e \<Rightarrow> Inl e
               | Inr df_merged \<Rightarrow> merged_station_data station_id df_merged) of
           Inr df \<Rightarrow> Inr df
         | Inl e \<Rightarrow> table_station_data station_id start_date end_date table)
      else table_station_data station_id start_date end_date table)"

section \<open>Pipeline orchestrator\<close>

definition bind_res :: "error + 'a \<Rightarrow> ('a \<Rightarrow> error + 'b) \<Rightarrow> error + 'b" where
  "bind_res r f = (case r of Inl e \<Rightarrow> Inl e | Inr x \<Rightarrow> f x)"

text \<open>
  \<^verbatim>\<open>configs.get('time_features', {}).get('enabled', True)
  if isinstance(configs.get('time_features'), dict) else 'time_features' in configs\<close>:
  every configuration value is a dictionary here, so the value is a dictionary exactly
  when the key is present.
\<close>

definition time_features_enabled :: "configs \<Rightarrow> bool" where
  "time_features_enabled configs =
     (case map_of configs ''time_features'' of
        Some c \<Rightarrow> cfg_get (cfg_enabled c) True
      | None \<Rightarrow> False)"

text \<open>The stages of \<^verbatim>\<open>preprocess_data\<close>, from the fetched frame to the cleaned one.\<close>

definition run_stages :: "configs \<Rightarrow> int list \<Rightarrow> frame \<Rightarrow> error + frame" where
  "run_stages configs prediction_horizons df0 =
     bind_res (if time_features_enabled configs
               then apply_time_features df0 (cfg_get (map_of configs ''time_features'') empty_config)
               else Inr df0) (\<lambda>df.
     bind_res (case map_of configs ''lag_features'' of None \<Rightarrow> Inr df
               | Some c \<Rightarrow> apply_lag_features df c) (\<lambda>df.
     bind_res (case map_of configs ''rolling_statistics'' of None \<Rightarrow> Inr df
               | Some c \<Rightarrow> apply_rolling_statistics df c) (\<lambda>df.
     bind_res (case map_of configs ''rate_of_change'' of None \<Rightarrow> Inr df
               | Some c \<Rightarrow> apply_rate_of_change df c) (\<lambda>df.
     bind_res (case map_of configs ''rainfall_features'' of None \<Rightarrow> Inr df
               | Some c \<Rightarrow> apply_rainfall_features df c) (\<lambda>df.
     bind_res (case map_of configs ''weather_interactions'' of None \<Rightarrow> Inr df
               | Some c \<Rightarrow> apply_weather_interactions df c) (\<lambda>df.
     bind_res (case map_of configs ''station_statistics'' of None \<Rightarrow> Inr df
               | Some c \<Rightarrow> apply_station_statistics df c) (\<lambda>df.
     bind_res (case map_of configs ''target_creation'' of None \<Rightarrow> Inr df
               | Some c \<Rightarrow> create_targets df (c\<lparr>cfg_prediction_horizons := Some prediction_horizons\<rparr>)) (\<lambda>df.
     Inr (case map_of configs ''data_cleaning'' of None \<Rightarrow> df
          | Some c \<Rightarrow> clean_data df c)))))))))"

record preprocess_result =
  processed_data :: frame
  records_processed :: nat
  features_generated :: nat
  target_count :: nat
  initial_records :: nat
  configs_used :: "string list"

text \<open>
  \<^verbatim>\<open>preprocess_data\<close>. The configurations of the database and the results of the two
  data sources are parameters. The summary reads \<^verbatim>\<open>df['measured_at']\<close> at the end.
\<close>

definition preprocess_data ::
  "configs \<Rightarrow> error + frame \<Rightarrow> frame \<Rightarrow> int option \<Rightarrow> real option \<Rightarrow> real option \<Rightarrow> int list \<Rightarrow>
   configs option \<Rightarrow> error + preprocess_result" where
  "preprocess_data db_configs merge_result table station_id start_date end_date prediction_horizons custom_configs =
     (let configs = (case custom_configs of None \<Rightarrow> db_configs
                     | Some cc \<Rightarrow> if cc \<noteq> [] then cc else db_configs)
      in bind_res (get_station_data station_id start_date end_date True merge_result table) (\<lambda>df0.
         bind_res (run_stages configs prediction_horizons df0) (\<lambda>df.
           (let exclude_from_features = [''id'', ''station_id'', ''measured_at'', ''created_at''];
                feature_cols = filter (\<lambda>c. c \<notin> set exclude_from_features \<and> \<not> starts_with c ''target_'')
                                 (map fst (cols df));
                target_cols = filter (\<lambda>c. starts_with c ''target_'') (map fst (cols df))
            in if \<not> has_col df ''measured_at'' then Inl KeyError
               else Inr \<lparr>processed_data = df, records_processed = nrows df,
                          features_generated = length feature_cols,
                          target_count = length target_cols,
                          initial_records = nrows df0,
                          configs_used = map fst configs\<rparr>))))"

section \<open>Inference feature preparer\<close>

definition select_cols :: "string list \<Rightarrow> frame \<Rightarrow> frame" where
  "select_cols cs df = df\<lparr>cols := filter (\<lambda>(c, v). c \<in> set cs) (cols df)\<rparr>"

text \<open>
  \<^verbatim>\<open>col_mean = df[col].mean()\<close> and the fill of the latest row. The mean of a column of
  object dtype is a \<open>TypeError\<close>; a column without any value has the mean NaN, and the
  latest row is then filled with 0.
\<close>

definition fill_latest :: "frame \<Rightarrow> string \<Rightarrow> frame \<Rightarrow> error + frame" where
  "fill_latest df col X_latest =
     (case get_col df col of Inl e \<Rightarrow> Inl e
      | Inr (ty, xs) \<Rightarrow>
          if ty = Object then Inl TypeError
          else
            (let col_mean = mean_list (non_null xs)
             in case get_col X_latest col of Inl e \<Rightarrow> Inl e
                | Inr (lty, latest) \<Rightarrow>
                    if col_mean = None then Inr (set_col X_latest col (lty, fillna (Some 0) latest))
                    else Inr (set_col X_latest col (lty, fillna col_mean latest))))"

text \<open>The part of \<^verbatim>\<open>prepare_latest_data_for_prediction\<close> after the pipeline has run.\<close>

definition latest_features :: "frame \<Rightarrow> error + (frame \<times> string list) option" where
  "latest_features df =
     (if nrows df = 0 then Inr None
      else
        (let target_cols = filter (\<lambda>c. starts_with c ''target_'') (map fst (cols df));
             exclude_cols = [''measured_at'', ''id'', ''created_at'', ''fetched_at'', ''source'', ''status''];
             feature_cols = filter (\<lambda>c. c \<notin> set target_cols \<and> c \<notin> set exclude_cols \<and>
                                        \<not> starts_with c ''target_'') (map fst (cols df));
             X_latest = take_rows [nrows df - 1] (select_cols feature_cols df);
             nan_cols = map fst (filter (\<lambda>(c, ty, xs). list_ex (\<lambda>x. x = None) xs) (cols X_latest))
         in case fold_res (fill_latest df) nan_cols X_latest of
              Inl e \<Rightarrow> Inl e
            | Inr X \<Rightarrow> Inr (Some (X, feature_cols))))"

text \<open>
  \<^verbatim>\<open>prepare_latest_data_for_prediction\<close>: the pipeline over the last 30 days up to
  \<open>now\<close> (seconds), with the configurations of the database and the single horizon 15.
\<close>

definition prepare_latest_data_for_prediction ::
  "configs \<Rightarrow> error + frame \<Rightarrow> frame \<Rightarrow> real \<Rightarrow> int option \<Rightarrow> error + (frame \<times> string list) option" where
  "prepare_latest_data_for_prediction db_configs merge_result table now station_id =
     bind_res (preprocess_data db_configs merge_result table station_id
                 (Some (now - 30 * 86400)) (Some now) [15] None)
       (\<lambda>result. latest_features (processed_data result))"

section \<open>Station groups, as the specification speaks of them\<close>

definition station_ids_known :: "frame \<Rightarrow> bool" where
  "station_ids_known df =
     (case map_of (cols df) ''station_id'' of None \<Rightarrow> True | Some (ty, xs) \<Rightarrow> list_all (\<lambda>c. c \<noteq> None) xs)"

definition group_rows :: "frame \<Rightarrow> nat \<Rightarrow> nat list" where
  "group_rows df t = filter (\<lambda>u. station_keys df ! u = station_keys df ! t) [0..<nrows df]"

definition group_pos :: "frame \<Rightarrow> nat \<Rightarrow> nat" where
  "group_pos df t = length (filter (\<lambda>u. station_keys df ! u = station_keys df ! t) [0..<t])"

definition group_value_at :: "frame \<Rightarrow> cell list \<Rightarrow> nat \<Rightarrow> int \<Rightarrow> cell" where
  "group_value_at df xs t j =
     (if 0 \<le> j \<and> j < int (length (group_rows df t)) then xs ! (group_rows df t ! nat j) else None)"


text \<open>The deltas, in minutes, between consecutive non-null timestamps of a series.\<close>

fun consecutive_deltas :: "cell list \<Rightarrow> real list" where
  "consecutive_deltas (Some a # Some b # rest) = (b - a) / 60 # consecutive_deltas (Some b # rest)"
| "consecutive_deltas (x # y # rest) = consecutive_deltas (y # rest)"
| "consecutive_deltas xs = []"

text \<open>The rows that the cleaner keeps: those without a null in any column whose name
  contains \<open>lag_\<close>, when that policy is on and such a column exists.\<close>

definition kept_rows :: "frame \<Rightarrow> config \<Rightarrow> bool list" where
  "kept_rows df config =
     (if cfg_get (cfg_remove_rows_with_missing_lags config) True \<and>
         filter (\<lambda>c. contains_str c ''lag_'') (map fst (cols df)) \<noteq> []
      then notnull_mask df (filter (\<lambda>c. contains_str c ''lag_'') (map fst (cols df)))
      else replicate (nrows df) True)"

section \<open>Auxiliary definitions for the proofs\<close>

definition val_str :: "string \<Rightarrow> nat" where
  "val_str s = foldl (\<lambda>a c. 10 * a + (of_char c - 48)) 0 s"

definition target_col :: "bool \<Rightarrow> cell list \<Rightarrow> dtype \<Rightarrow> cell list \<Rightarrow> int \<Rightarrow> column" where
  "target_col multi keys ty wl h =
     (ty, if multi then groupby_transform keys (shift_pd (- (h div 15))) wl
          else shift_pd (- (h div 15)) wl)"

section \<open>Example inputs\<close>

definition ex_two_stations :: frame where
  "ex_two_stations = \<lparr>nrows = 5, cols =
     [(''station_id'', Number, [Some 2, Some 3, Some 2, Some 3, Some 2]),
      (''measured_at'', Datetime, [Some 0, Some 0, Some 900, Some 900, Some 1800]),
      (''water_level'', Number, [Some 10, Some 20, Some 11, Some 21, Some 12])]\<rparr>"

definition ex_irregular :: frame where
  "ex_irregular = \<lparr>nrows = 3, cols =
     [(''measured_at'', Datetime, [Some 0, Some 900, Some 3600]),
      (''water_level'', Number, [Some 10, Some 20, Some 30])]\<rparr>"

definition ex_no_level :: frame where
  "ex_no_level = \<lparr>nrows = 2, cols = [(''measured_at'', Datetime, [Some 0, Some 900])]\<rparr>"

definition ex_no_time :: frame where
  "ex_no_time = \<lparr>nrows = 2, cols = [(''water_level'', Number, [Some 10, Some 20])]\<rparr>"

definition ex_short :: frame where
  "ex_short = \<lparr>nrows = 2, cols =
     [(''station_id'', Number, [Some 2, Some 2]),
      (''measured_at'', Datetime, [Some 0, Some 900]),
      (''water_level'', Number, [Some 10, Some 20])]\<rparr>"

definition ex_short_targets :: frame where
  "ex_short_targets = \<lparr>nrows = 2, cols =
     [(''station_id'', Number, [Some 2, Some 2]),
      (''measured_at'', Datetime, [Some 0, Some 900]),
      (''water_level'', Number, [Some 10, Some 20]),
      (''target_15min'', Number, [Some 20, None]),
      (''target_60min'', Number, [None, None])]\<rparr>"

definition ex_latest :: frame where
  "ex_latest = \<lparr>nrows = 2, cols =
     [(''station_id'', Number, [Some 2, Some 2]),
      (''measured_at'', Datetime, [Some 0, Some 900]),
      (''water_level'', Number, [Some 10, Some 20]),
      (''temperature'', Number, [Some 30, None]),
      (''rainfall_1h'', Number, [None, None])]\<rparr>"

definition ex_latest_row :: frame where
  "ex_latest_row = \<lparr>nrows = 1, cols =
     [(''station_id'', Number, [Some 2]),
      (''water_level'', Number, [Some 20]),
      (''temperature'', Number, [Some 30]),
      (''rainfall_1h'', Number, [Some 0])]\<rparr>"

definition ex_latest_clean :: frame where
  "ex_latest_clean = \<lparr>nrows = 2, cols =
     [(''station_id'', Number, [Some 2, Some 2]),
      (''measured_at'', Datetime, [Some 0, Some 900]),
      (''water_level'', Number, [Some 10, Some 20]),
      (''temperature'', Number, [Some 30, Some 30]),
      (''rainfall_1h'', Number, [None, None])]\<rparr>"

section \<open>Basic facts about the series operations\<close>

lemma shift_pd_length [simp]: "length (shift_pd k xs) = length xs"
  by (auto simp: shift_pd_def)

lemma shift_pd_nth:
  assumes "t < length xs"
  shows "shift_pd k xs ! t =
    (if 0 \<le> int t - k \<and> int t - k < int (length xs) then xs ! nat (int t - k) else None)"
proof (cases "k \<ge> 0")
  case True
  then show ?thesis using assms
    by (auto simp: shift_pd_def nth_append nat_diff_distrib' nat_less_iff)
next
  case False
  define j where "j = nat (- k)"
  have k: "k = - int j" "j > 0" using False by (auto simp: j_def)
  have sh: "shift_pd k xs = drop j xs @ replicate (min j (length xs)) None"
    using False by (simp add: shift_pd_def j_def)
  show ?thesis
  proof (cases "t + j < length xs")
    case True
    then have "t < length xs - j" by arith
    then have "shift_pd k xs ! t = xs ! (j + t)"
      by (simp add: sh nth_append)
    moreover have "nat (int t - k) = j + t" by (simp add: k)
    ultimately show ?thesis using True by (simp add: k)
  next
    case False
    then have "\<not> t < length xs - j" "t - (length xs - j) < min j (length xs)"
      using assms k by arith+
    then have "shift_pd k xs ! t = None"
      by (simp add: sh nth_append)
    then show ?thesis using False by (simp add: k)
  qed
qed

lemma zip_as_upt:
  "length msk = length xs \<Longrightarrow> zip msk xs = map (\<lambda>i. (msk ! i, xs ! i)) [0..<length xs]"
  by (rule nth_equalityI) auto

lemma select_rows_upt:
  assumes "length msk = length xs"
  shows "select_rows msk xs = map ((!) xs) (filter ((!) msk) [0..<length xs])"
  by (simp add: select_rows_def zip_as_upt [OF assms] filter_map comp_def)

lemma take_as_upt: "t \<le> length msk \<Longrightarrow> take t msk = map ((!) msk) [0..<t]"
  by (rule nth_equalityI) auto

lemma rank_take_upt:
  assumes "t \<le> length msk"
  shows "length (filter (\<lambda>b. b) (take t msk)) = length (filter ((!) msk) [0..<t])"
  by (simp add: take_as_upt [OF assms] filter_map comp_def)

lemma assign_rows_length [simp]: "length (assign_rows msk vs xs) = length xs"
  by (induction msk vs xs rule: assign_rows.induct) (auto split: list.splits)

lemma assign_rows_nth_take:
  "length msk = length xs \<Longrightarrow> length vs = length (filter (\<lambda>b. b) msk) \<Longrightarrow> t < length xs \<Longrightarrow>
   assign_rows msk vs xs ! t = (if msk ! t then vs ! length (filter (\<lambda>b. b) (take t msk)) else xs ! t)"
proof (induction msk vs xs arbitrary: t rule: assign_rows.induct)
  case (1 m ms vs x xs)
  show ?case
  proof (cases t)
    case 0
    then show ?thesis using 1 by (auto split: list.splits)
  next
    case (Suc t')
    then show ?thesis using 1 by (auto split: list.splits)
  qed
qed auto

lemma assign_rows_nth:
  assumes "length msk = length xs" "length vs = length (filter (\<lambda>b. b) msk)" "t < length xs"
  shows "assign_rows msk vs xs ! t =
    (if msk ! t then vs ! length (filter ((!) msk) [0..<t]) else xs ! t)"
  using assign_rows_nth_take [OF assms] rank_take_upt [of t msk] assms by simp

lemma filter_upt_nth_rank:
  assumes "t < n" "P t"
  shows "filter P [0..<n] ! length (filter P [0..<t]) = t"
    and "length (filter P [0..<t]) < length (filter P [0..<n])"
proof -
  have "[0..<n] = [0..<t] @ t # [Suc t..<n]"
    using assms(1) by (metis less_imp_le_nat upt_add_eq_append upt_conv_Cons zero_le le_add_diff_inverse)
  then have f: "filter P [0..<n] = filter P [0..<t] @ t # filter P [Suc t..<n]"
    using assms(2) by simp
  show "filter P [0..<n] ! length (filter P [0..<t]) = t" by (simp add: f)
  show "length (filter P [0..<t]) < length (filter P [0..<n])" by (simp add: f)
qed

lemma digit_char_cases: "d < 10 \<Longrightarrow> d = 0 \<or> d = 1 \<or> d = 2 \<or> d = 3 \<or> d = 4 \<or> d = 5 \<or> d = 6 \<or> d = 7 \<or> d = 8 \<or> d = (9::nat)"
  by arith

lemma of_char_digit_char: "d < 10 \<Longrightarrow> of_char (digit_char d) = 48 + d"
  using digit_char_cases [of d] by (auto simp: digit_char_def)

lemma digit_char_not_minus: "d < 10 \<Longrightarrow> digit_char d \<noteq> CHR ''-''"
  using digit_char_cases [of d] by (auto simp: digit_char_def)

lemma val_str_str_nat: "val_str (str_nat n) = n"
proof (induction n rule: str_nat.induct)
  case (1 n)
  show ?case
  proof (cases "n < 10")
    case True
    then show ?thesis
      by (subst str_nat.simps) (simp add: val_str_def of_char_digit_char)
  next
    case False
    have "n mod 10 < 10" by simp
    then have d: "of_char (digit_char (n mod 10)) = 48 + n mod 10"
      by (rule of_char_digit_char)
    have "val_str (str_nat n) = 10 * val_str (str_nat (n div 10)) + n mod 10"
      using False by (subst str_nat.simps) (simp add: val_str_def d)
    then show ?thesis using 1 False by simp
  qed
qed

lemma str_nat_inj: "str_nat m = str_nat n \<Longrightarrow> m = n"
  by (metis val_str_str_nat)

lemma str_nat_no_minus: "CHR ''-'' \<notin> set (str_nat n)"
proof (induction n rule: str_nat.induct)
  case (1 n)
  have "n mod 10 < 10" by simp
  then have m: "digit_char (n mod 10) \<noteq> CHR ''-''" by (rule digit_char_not_minus)
  show ?case
  proof (cases "n < 10")
    case True
    then show ?thesis
      by (subst str_nat.simps) (use digit_char_not_minus [of n] in auto)
  next
    case False
    then show ?thesis using 1 m
      by (subst str_nat.simps) auto
  qed
qed

lemma str_int_inj: "str_int i = str_int j \<Longrightarrow> i = j"
proof -
  assume eq: "str_int i = str_int j"
  consider "i < 0" "j < 0" | "i \<ge> 0" "j \<ge> 0" | "i < 0" "j \<ge> 0" | "i \<ge> 0" "j < 0"
    by linarith
  then show ?thesis
  proof cases
    case 1
    then have "str_nat (nat (- i)) = str_nat (nat (- j))" using eq by (simp add: str_int_def)
    then have "nat (- i) = nat (- j)" by (rule str_nat_inj)
    then show ?thesis using 1 by simp
  next
    case 2
    then have "str_nat (nat i) = str_nat (nat j)" using eq by (simp add: str_int_def)
    then have "nat i = nat j" by (rule str_nat_inj)
    then show ?thesis using 2 by simp
  next
    case 3
    then have "CHR ''-'' # str_nat (nat (- i)) = str_nat (nat j)" using eq by (simp add: str_int_def)
    then have "CHR ''-'' \<in> set (str_nat (nat j))" by (metis list.set_intros(1))
    then show ?thesis using str_nat_no_minus by blast
  next
    case 4
    then have "str_nat (nat i) = CHR ''-'' # str_nat (nat (- j))" using eq by (simp add: str_int_def)
    then have "CHR ''-'' \<in> set (str_nat (nat i))" by (metis list.set_intros(1))
    then show ?thesis using str_nat_no_minus by blast
  qed
qed

lemma unique_pd_set [simp]: "set (unique_pd xs) = set xs"
  by (simp add: unique_pd_def)

lemma unique_pd_distinct [simp]: "distinct (unique_pd xs)"
  by (simp add: unique_pd_def)

lemma non_null_set: "set (non_null xs) = {v. Some v \<in> set xs}"
  by (induction xs) (auto simp: non_null_def split: option.splits)

lemma select_rows_length:
  assumes "length msk = length xs"
  shows "length (select_rows msk xs) = length (filter (\<lambda>b. b) msk)"
  using rank_take_upt [of "length msk" msk] assms
  by (simp add: select_rows_upt)

lemma group_step_nth:
  assumes len: "length keys = length vals" "length acc = length vals" "t < length vals"
    and flen: "\<And>ys. length (f ys) = length ys"
  shows "assign_rows (eq_mask keys g) (f (select_rows (eq_mask keys g) vals)) acc ! t =
     (if keys ! t = Some g
      then f (map ((!) vals) (filter (\<lambda>u. keys ! u = Some g) [0..<length vals])) !
             length (filter (\<lambda>u. keys ! u = Some g) [0..<t])
      else acc ! t)"
proof -
  let ?m = "eq_mask keys g"
  have lm: "length ?m = length vals" by (simp add: eq_mask_def len)
  have idx: "\<And>n. n \<le> length vals \<Longrightarrow> filter ((!) ?m) [0..<n] = filter (\<lambda>u. keys ! u = Some g) [0..<n]"
    by (rule filter_cong) (auto simp: eq_mask_def len)
  have sel: "select_rows ?m vals = map ((!) vals) (filter (\<lambda>u. keys ! u = Some g) [0..<length vals])"
    using select_rows_upt [OF lm] idx [of "length vals"] by simp
  have lv: "length (f (select_rows ?m vals)) = length (filter (\<lambda>b. b) ?m)"
    by (simp add: flen select_rows_length [OF lm])
  have "assign_rows ?m (f (select_rows ?m vals)) acc ! t =
      (if ?m ! t then f (select_rows ?m vals) ! length (filter ((!) ?m) [0..<t]) else acc ! t)"
    by (rule assign_rows_nth) (use lm len lv in auto)
  moreover have "?m ! t = (keys ! t = Some g)" using len by (simp add: eq_mask_def)
  ultimately show ?thesis using idx [of t] len by (simp add: sel)
qed

lemma group_fold_nth:
  assumes len: "length keys = length vals" "t < length vals"
    and flen: "\<And>ys. length (f ys) = length ys"
    and key: "keys ! t = Some g"
  shows "distinct gs \<Longrightarrow> length acc = length vals \<Longrightarrow>
    length (fold (\<lambda>g acc. assign_rows (eq_mask keys g) (f (select_rows (eq_mask keys g) vals)) acc) gs acc) = length vals \<and>
    fold (\<lambda>g acc. assign_rows (eq_mask keys g) (f (select_rows (eq_mask keys g) vals)) acc) gs acc ! t =
     (if g \<in> set gs
      then f (map ((!) vals) (filter (\<lambda>u. keys ! u = Some g) [0..<length vals])) !
             length (filter (\<lambda>u. keys ! u = Some g) [0..<t])
      else acc ! t)"
proof (induction gs arbitrary: acc)
  case Nil
  then show ?case by simp
next
  case (Cons a gs)
  let ?acc' = "assign_rows (eq_mask keys a) (f (select_rows (eq_mask keys a) vals)) acc"
  have l': "length ?acc' = length vals" using Cons.prems by simp
  have d: "distinct gs" "a \<notin> set gs" using Cons.prems by auto
  have st: "?acc' ! t = (if keys ! t = Some a
      then f (map ((!) vals) (filter (\<lambda>u. keys ! u = Some a) [0..<length vals])) !
             length (filter (\<lambda>u. keys ! u = Some a) [0..<t])
      else acc ! t)"
    by (rule group_step_nth) (use len Cons.prems flen in auto)
  show ?case
    using Cons.IH [OF d(1) l'] st d(2) key by auto
qed

lemma groupby_transform_nth:
  assumes len: "length keys = length vals" "t < length vals"
    and flen: "\<And>ys. length (f ys) = length ys"
    and key: "keys ! t = Some g"
  shows "groupby_transform keys f vals ! t =
      f (map ((!) vals) (filter (\<lambda>u. keys ! u = Some g) [0..<length vals])) !
             length (filter (\<lambda>u. keys ! u = Some g) [0..<t])"
    and "length (groupby_transform keys f vals) = length vals"
proof -
  have "Some g \<in> set keys" using len key by (metis nth_mem)
  then have g: "g \<in> set (unique_pd (non_null keys))" by (simp add: non_null_set)
  have gt: "groupby_transform keys f vals =
    fold (\<lambda>g acc. assign_rows (eq_mask keys g) (f (select_rows (eq_mask keys g) vals)) acc)
      (unique_pd (non_null keys)) (replicate (length vals) None)"
    by (simp add: groupby_transform_def)
  show "groupby_transform keys f vals ! t =
      f (map ((!) vals) (filter (\<lambda>u. keys ! u = Some g) [0..<length vals])) !
             length (filter (\<lambda>u. keys ! u = Some g) [0..<t])"
    using group_fold_nth [OF len flen key, of "unique_pd (non_null keys)" "replicate (length vals) None"] g
    by (simp add: gt)
  show "length (groupby_transform keys f vals) = length vals"
    using group_fold_nth [OF len flen key, of "unique_pd (non_null keys)" "replicate (length vals) None"]
    by (simp add: gt)
qed

section \<open>Target constructor\<close>

lemma target_name_inj: "target_name h = target_name h' \<Longrightarrow> h = h'"
  by (simp add: target_name_def str_int_inj)

lemma target_name_not_base [simp]:
  "target_name h \<noteq> ''water_level''" "target_name h \<noteq> ''station_id''"
  "''water_level'' \<noteq> target_name h" "''station_id'' \<noteq> target_name h"
  by (simp_all add: target_name_def)

lemma map_of_set_col: "map_of (cols (set_col df c v)) = (map_of (cols df))(c \<mapsto> v)"
  by (simp add: set_col_def update_conv')

lemma nrows_set_col [simp]: "nrows (set_col df c v) = nrows df"
  by (simp add: set_col_def)

lemma target_step_eq:
  assumes "map_of (cols df) ''water_level'' = Some (ty, wl)"
    and "multi \<Longrightarrow> map_of (cols df) ''station_id'' = Some (kty, keys)"
  shows "target_step multi h df = Inr (set_col df (target_name h) (target_col multi keys ty wl h))"
  using assms by (auto simp: target_step_def groupby_station_def get_col_def target_col_def)

lemma targets_fold:
  assumes "map_of (cols df) ''water_level'' = Some (ty, wl)"
    and "multi \<Longrightarrow> map_of (cols df) ''station_id'' = Some (kty, keys)"
  shows "\<exists>df'. fold_res (target_step multi) hs df = Inr df' \<and> nrows df' = nrows df \<and>
     (\<forall>c. c \<notin> target_name ` set hs \<longrightarrow> map_of (cols df') c = map_of (cols df) c) \<and>
     (\<forall>h\<in>set hs. map_of (cols df') (target_name h) = Some (target_col multi keys ty wl h))"
  using assms
proof (induction hs arbitrary: df)
  case Nil
  then show ?case by simp
next
  case (Cons h hs)
  let ?df1 = "set_col df (target_name h) (target_col multi keys ty wl h)"
  have st: "target_step multi h df = Inr ?df1"
    by (rule target_step_eq) (use Cons.prems in auto)
  have w1: "map_of (cols ?df1) ''water_level'' = Some (ty, wl)"
    using Cons.prems(1) by (simp add: map_of_set_col)
  have k1: "multi \<Longrightarrow> map_of (cols ?df1) ''station_id'' = Some (kty, keys)"
    using Cons.prems(2) by (simp add: map_of_set_col)
  from Cons.IH [OF w1 k1] obtain df' where
    f: "fold_res (target_step multi) hs ?df1 = Inr df'" and n: "nrows df' = nrows ?df1"
    and keep: "\<forall>c. c \<notin> target_name ` set hs \<longrightarrow> map_of (cols df') c = map_of (cols ?df1) c"
    and new: "\<forall>h\<in>set hs. map_of (cols df') (target_name h) = Some (target_col multi keys ty wl h)"
    by blast
  have "fold_res (target_step multi) (h # hs) df = Inr df'" by (simp add: st f)
  moreover have "nrows df' = nrows df" using n by simp
  moreover have "\<forall>c. c \<notin> target_name ` set (h # hs) \<longrightarrow> map_of (cols df') c = map_of (cols df) c"
    using keep by (auto simp: map_of_set_col)
  moreover have "\<forall>h'\<in>set (h # hs). map_of (cols df') (target_name h') = Some (target_col multi keys ty wl h')"
  proof
    fix h' assume "h' \<in> set (h # hs)"
    show "map_of (cols df') (target_name h') = Some (target_col multi keys ty wl h')"
    proof (cases "h' \<in> set hs")
      case True
      then show ?thesis using new by blast
    next
      case False
      then have e: "h' = h" using \<open>h' \<in> set (h # hs)\<close> by simp
      have "target_name h \<notin> target_name ` set hs"
        using False e target_name_inj by blast
      then show ?thesis using keep e by (simp add: map_of_set_col)
    qed
  qed
  ultimately show ?case by blast
qed

lemma wf_col_length:
  assumes "wf_frame df" "map_of (cols df) c = Some (ty, xs)"
  shows "length xs = nrows df"
proof -
  have "(c, ty, xs) \<in> set (cols df)" using assms(2) by (rule map_of_SomeD)
  then show ?thesis using assms(1) by (auto simp: wf_frame_def list_all_iff)
qed

lemma station_keys_length: "wf_frame df \<Longrightarrow> length (station_keys df) = nrows df"
  by (auto simp: station_keys_def wf_col_length split: option.splits)

lemma nunique_card: "nunique xs = card (set (non_null xs))"
  unfolding nunique_def by (simp add: length_remdups_card_conv)

lemma single_station_same:
  assumes wf: "wf_frame df" and known: "station_ids_known df"
    and single: "\<not> has_multiple_stations df"
    and u: "u < nrows df" and t: "t < nrows df"
  shows "station_keys df ! u = station_keys df ! t"
proof (cases "map_of (cols df) ''station_id''")
  case None
  then show ?thesis using u t by (simp add: station_keys_def)
next
  case (Some c)
  obtain ty xs where c: "c = (ty, xs)" by (cases c)
  have len: "length xs = nrows df" using wf Some c by (simp add: wf_col_length)
  have sk: "station_keys df = xs" using Some c by (simp add: station_keys_def)
  have nn: "\<forall>x\<in>set xs. x \<noteq> None" using known Some c by (simp add: station_ids_known_def list_all_iff)
  have card: "card (set (non_null xs)) \<le> 1"
    using single Some c
    by (simp add: has_multiple_stations_def nunique_card)
  obtain a where a: "xs ! u = Some a" using nn u len by (metis nth_mem not_None_eq)
  obtain b where b: "xs ! t = Some b" using nn t len by (metis nth_mem not_None_eq)
  have "Some a \<in> set xs" "Some b \<in> set xs"
    using a b u t len by (metis nth_mem)+
  then have "a \<in> set (non_null xs)" "b \<in> set (non_null xs)"
    by (simp_all add: non_null_set)
  then have "a = b" using card by (metis List.finite_set card_le_Suc0_iff_eq One_nat_def)
  then show ?thesis using a b sk by simp
qed

lemma single_station_groups:
  assumes wf: "wf_frame df" and known: "station_ids_known df"
    and single: "\<not> has_multiple_stations df" and t: "t < nrows df"
  shows "group_rows df t = [0..<nrows df]" and "group_pos df t = t"
proof -
  have same: "\<And>u. u < nrows df \<Longrightarrow> (station_keys df ! u = station_keys df ! t) = True"
    using single_station_same [OF wf known single _ t] by blast
  have "\<forall>u\<in>set [0..<nrows df]. station_keys df ! u = station_keys df ! t"
    by (simp add: same)
  then have "filter (\<lambda>u. station_keys df ! u = station_keys df ! t) [0..<nrows df] = [0..<nrows df]"
    by (simp only: filter_id_conv)
  then show "group_rows df t = [0..<nrows df]" by (simp add: group_rows_def)
  have "\<forall>u\<in>set [0..<t]. station_keys df ! u = station_keys df ! t"
    using t by (simp add: same)
  then have "filter (\<lambda>u. station_keys df ! u = station_keys df ! t) [0..<t] = [0..<t]"
    by (simp only: filter_id_conv)
  then show "group_pos df t = t" by (simp add: group_pos_def)
qed

lemma target_col_nth:
  assumes wf: "wf_frame df" and known: "station_ids_known df"
    and wl: "map_of (cols df) ''water_level'' = Some (ty, wl)"
    and keys: "has_multiple_stations df \<Longrightarrow> map_of (cols df) ''station_id'' = Some (kty, keys)"
    and t: "t < nrows df"
  shows "length (snd (target_col (has_multiple_stations df) keys ty wl h)) = nrows df \<and>
     snd (target_col (has_multiple_stations df) keys ty wl h) ! t =
       group_value_at df wl t (int (group_pos df t) + h div 15)"
proof (cases "has_multiple_stations df")
  case False
  have lw: "length wl = nrows df" using wf wl by (rule wf_col_length)
  note g = single_station_groups [OF wf known False t]
  show ?thesis using False lw t
    by (auto simp: target_col_def shift_pd_nth group_value_at_def g nat_less_iff)
next
  case True
  have lw: "length wl = nrows df" using wf wl by (rule wf_col_length)
  note k = keys [OF True]
  have lk: "length keys = nrows df" using wf k by (rule wf_col_length)
  have sk: "station_keys df = keys" using k by (simp add: station_keys_def)
  have "keys ! t \<noteq> None"
    using known k t lk by (auto simp: station_ids_known_def list_all_iff)
  then obtain g where g: "keys ! t = Some g" by blast
  let ?G = "filter (\<lambda>u. keys ! u = Some g) [0..<nrows df]"
  let ?p = "length (filter (\<lambda>u. keys ! u = Some g) [0..<t])"
  have gr: "group_rows df t = ?G" "group_pos df t = ?p"
    using g by (simp_all add: group_rows_def group_pos_def sk)
  have p: "?p < length ?G" using filter_upt_nth_rank(2) [of t "nrows df" "\<lambda>u. keys ! u = Some g"] t g
    by simp
  have len: "length keys = length wl" "t < length wl" using lk lw t by simp_all
  note gt = groupby_transform_nth [where f = "shift_pd (- (h div 15))", OF len shift_pd_length g]
  have "snd (target_col (has_multiple_stations df) keys ty wl h) ! t =
      shift_pd (- (h div 15)) (map ((!) wl) ?G) ! ?p"
    using True gt(1) lw by (simp add: target_col_def)
  also have "\<dots> = (if 0 \<le> int ?p + h div 15 \<and> int ?p + h div 15 < int (length ?G)
      then map ((!) wl) ?G ! nat (int ?p + h div 15) else None)"
    using p by (simp add: shift_pd_nth)
  also have "\<dots> = group_value_at df wl t (int (group_pos df t) + h div 15)"
    by (auto simp: group_value_at_def gr nat_less_iff)
  finally have "snd (target_col (has_multiple_stations df) keys ty wl h) ! t =
      group_value_at df wl t (int (group_pos df t) + h div 15)" .
  moreover have "length (snd (target_col (has_multiple_stations df) keys ty wl h)) = nrows df"
    using True gt(2) lw by (simp add: target_col_def)
  ultimately show ?thesis by simp
qed

text \<open>
  Claim C2. For every requested horizon \<open>h\<close>, the target constructor succeeds on a
  well-formed frame with a \<open>water_level\<close> column and non-null station identifiers, and
  the column \<open>target_{h}min\<close> holds at row \<open>t\<close> the \<open>water_level\<close> of the row that
  lies \<open>h // 15\<close> positions after \<open>t\<close> within the station group of \<open>t\<close> (a fixed
  15-minute grid, whatever interval the station reports at), and null when the group has
  no such row.
\<close>

theorem create_targets_future_row:
  assumes "wf_frame df" and "station_ids_known df"
    and "map_of (cols df) ''water_level'' = Some (ty, wl)"
    and "horizon \<in> set (cfg_get (cfg_prediction_horizons config) [15, 30, 45, 60, 90])"
    and "t < nrows df"
  shows "\<exists>df' tg. create_targets df config = Inr df' \<and>
      map_of (cols df') (target_name horizon) = Some (ty, tg) \<and> length tg = nrows df \<and>
      tg ! t = group_value_at df wl t (int (group_pos df t) + horizon div 15)"
proof -
  obtain kty keys where k: "has_multiple_stations df \<Longrightarrow> map_of (cols df) ''station_id'' = Some (kty, keys)"
    by (cases "map_of (cols df) ''station_id''") (auto simp: has_multiple_stations_def)
  from targets_fold [OF assms(3) k, of "has_multiple_stations df" "cfg_get (cfg_prediction_horizons config) [15, 30, 45, 60, 90]"]
  obtain df' where f: "create_targets df config = Inr df'"
    and new: "map_of (cols df') (target_name horizon) = Some (target_col (has_multiple_stations df) keys ty wl horizon)"
    using assms(4) by (auto simp: create_targets_def)
  note tc = target_col_nth [OF assms(1,2,3) k assms(5), of horizon]
  have "target_col (has_multiple_stations df) keys ty wl horizon = (ty, snd (target_col (has_multiple_stations df) keys ty wl horizon))"
    by (simp add: target_col_def)
  then show ?thesis using f new tc by metis
qed

theorem create_targets_future_row_witness:
  "wf_frame ex_two_stations \<and> station_ids_known ex_two_stations \<and>
   map_of (cols ex_two_stations) ''water_level'' = Some (Number, [Some 10, Some 20, Some 11, Some 21, Some 12]) \<and>
   30 \<in> set (cfg_get (cfg_prediction_horizons empty_config) [15, 30, 45, 60, 90]) \<and> 0 < nrows ex_two_stations \<and>
   (\<exists>df' tg. create_targets ex_two_stations empty_config = Inr df' \<and>
      map_of (cols df') (target_name 30) = Some (Number, tg) \<and> length tg = 5 \<and> tg ! 0 = Some 12)"
proof -
  have h: "wf_frame ex_two_stations" "station_ids_known ex_two_stations"
    "map_of (cols ex_two_stations) ''water_level'' = Some (Number, [Some 10, Some 20, Some 11, Some 21, Some 12])"
    "30 \<in> set (cfg_get (cfg_prediction_horizons empty_config) [15, 30, 45, 60, 90])" "0 < nrows ex_two_stations"
    by (simp_all add: ex_two_stations_def wf_frame_def station_ids_known_def cfg_get_def empty_config_def)
  have v: "group_value_at ex_two_stations [Some 10, Some 20, Some 11, Some 21, Some 12] 0
      (int (group_pos ex_two_stations 0) + 30 div 15) = Some 12"
    by (simp add: group_value_at_def group_pos_def group_rows_def station_keys_def ex_two_stations_def upt_conv_Cons)
  have n: "nrows ex_two_stations = 5" by (simp add: ex_two_stations_def)
  show ?thesis
    using h create_targets_future_row [OF h] v n by simp
qed

section \<open>Interval estimator\<close>

lemma fold_max_Max: "fold max xs (a::nat) = Max (set (a # xs))"
  using Max.set_eq_fold [of a xs] by simp

lemma mode_pd_empty [simp]: "mode_pd [] = []"
  by (simp add: mode_pd_def)

lemma mode_pd_hd:
  assumes "ds \<noteq> []"
  shows "mode_pd ds \<noteq> [] \<and> hd (mode_pd ds) \<in> set ds \<and>
     (\<forall>d\<in>set ds. count_list ds d \<le> count_list ds (hd (mode_pd ds)) \<and>
        (count_list ds d = count_list ds (hd (mode_pd ds)) \<longrightarrow> hd (mode_pd ds) \<le> d))"
proof -
  define M where "M = fold max (map (count_list ds) ds) 0"
  have M: "M = Max (set (0 # map (count_list ds) ds))" by (simp add: M_def fold_max_Max)
  have ub: "\<And>d. d \<in> set ds \<Longrightarrow> count_list ds d \<le> M"
    by (simp add: M)
  obtain d0 where d0: "d0 \<in> set ds" using assms by (cases ds) auto
  then have "0 < count_list ds d0" by (metis count_list_0_iff gr0I)
  then have Mpos: "0 < M" using ub [OF d0] by linarith
  have "M \<in> set (0 # map (count_list ds) ds)"
    unfolding M by (rule Max_in) auto
  then obtain d1 where d1: "d1 \<in> set ds" "count_list ds d1 = M" using Mpos by auto
  let ?c = "filter (\<lambda>x. count_list ds x = M) ds"
  have md: "mode_pd ds = sort (remdups ?c)" by (simp add: mode_pd_def M_def Let_def)
  have sub: "set (mode_pd ds) = {x \<in> set ds. count_list ds x = M}" by (auto simp: md)
  have "d1 \<in> set (mode_pd ds)" using d1 sub by simp
  then have ne: "mode_pd ds \<noteq> []" by auto
  have hdin: "hd (mode_pd ds) \<in> set (mode_pd ds)" using ne by simp
  have srt: "sorted (mode_pd ds)" by (simp add: md)
  have least: "\<And>y. y \<in> set (mode_pd ds) \<Longrightarrow> hd (mode_pd ds) \<le> y"
    using srt ne by (cases "mode_pd ds") auto
  have hM: "count_list ds (hd (mode_pd ds)) = M" "hd (mode_pd ds) \<in> set ds"
    using hdin sub by auto
  show ?thesis using ne hM ub least sub by auto
qed

lemma diffs_with_previous:
  "non_null (map (\<lambda>(x, p). map_option (\<lambda>d. d / 60) (sub_cell x p)) (zip rest (a # rest))) =
   consecutive_deltas (a # rest)"
proof (induction rest arbitrary: a)
  case Nil
  then show ?case by (simp add: non_null_def)
next
  case (Cons b rest)
  have "non_null (map (\<lambda>(x, p). map_option (\<lambda>d. d / 60) (sub_cell x p)) (zip (b # rest) (a # b # rest))) =
      non_null [map_option (\<lambda>d. d / 60) (sub_cell b a)] @ consecutive_deltas (b # rest)"
    using Cons.IH [of b] by (simp add: non_null_def)
  then show ?case
    by (cases a; cases b) (simp_all add: non_null_def sub_cell_def)
qed

lemma time_diffs_deltas:
  "non_null (map (map_option (\<lambda>d. d / 60)) (diff_pd 1 ts)) = consecutive_deltas ts"
proof (cases ts)
  case Nil
  then show ?thesis by (simp add: diff_pd_def non_null_def shift_pd_def)
next
  case (Cons a rest)
  have sh: "\<And>x. shift_pd 1 (x # rest) = None # take (length rest) (x # rest)"
    by (simp add: shift_pd_def)
  have z: "zip rest (take (length rest) (x # rest)) = zip rest (x # rest)" for x :: cell
  proof -
    have "zip rest (take (length rest) (x # rest)) =
        zip (take (length rest) rest) (take (length rest) (x # rest))" by simp
    also have "\<dots> = take (length rest) (zip rest (x # rest))" by (simp only: take_zip)
    also have "\<dots> = zip rest (x # rest)" by simp
    finally show ?thesis .
  qed
  have "map (map_option (\<lambda>d. d / 60)) (diff_pd 1 (a # rest)) =
      None # map (\<lambda>(x, p). map_option (\<lambda>d. d / 60) (sub_cell x p)) (zip rest (a # rest))"
    by (cases a) (simp_all add: diff_pd_def sh z sub_cell_def case_prod_unfold)
  then show ?thesis
    using diffs_with_previous [of rest a] Cons by (simp add: non_null_def)
qed

text \<open>
  Claim C7, as amended. The interval estimator takes the deltas between consecutive
  timestamps in minutes and returns the smallest of the most frequent deltas, so a series
  without a repeated delta yields its smallest delta; it returns the default of 30 minutes
  only when there is no delta at all (fewer than two timestamps). The number of periods
  per hour is 60 divided by this interval, and infinite (\<open>None\<close>) for a zero interval.
\<close>

theorem detect_mode_interval_smallest_mode:
  assumes "map_of (cols sdf) ''measured_at'' = Some (Datetime, ts)"
  shows "\<exists>m. detect_mode_interval sdf = Inr m \<and>
     (if consecutive_deltas ts = [] then m = 30
      else m \<in> set (consecutive_deltas ts) \<and>
        (\<forall>d\<in>set (consecutive_deltas ts).
           count_list (consecutive_deltas ts) d \<le> count_list (consecutive_deltas ts) m \<and>
           (count_list (consecutive_deltas ts) d = count_list (consecutive_deltas ts) m \<longrightarrow> m \<le> d))) \<and>
     periods_per_hour m = (if m = 0 then None else Some (60 / m))"
proof -
  let ?ds = "consecutive_deltas ts"
  have d: "detect_mode_interval sdf = Inr (if length (mode_pd ?ds) > 0 then hd (mode_pd ?ds) else 30)"
    using assms by (simp add: detect_mode_interval_def get_col_def time_diffs_deltas Let_def)
  show ?thesis
  proof (cases "?ds = []")
    case True
    then show ?thesis using d by (simp add: periods_per_hour_def)
  next
    case False
    from mode_pd_hd [OF False] show ?thesis using d False
      by (simp add: periods_per_hour_def)
  qed
qed

theorem detect_mode_interval_smallest_mode_witness:
  "map_of (cols ex_irregular) ''measured_at'' = Some (Datetime, [Some 0, Some 900, Some 3600]) \<and>
   detect_mode_interval ex_irregular = Inr 15 \<and> periods_per_hour 15 = Some 4"
proof -
  have h: "map_of (cols ex_irregular) ''measured_at'' = Some (Datetime, [Some 0, Some 900, Some 3600])"
    by (simp add: ex_irregular_def)
  have c: "consecutive_deltas [Some 0, Some 900, Some 3600] = [15, 45]" by simp
  from detect_mode_interval_smallest_mode [OF h] obtain m where
    m: "detect_mode_interval ex_irregular = Inr m" "m \<in> set [15, 45]"
      "\<forall>d\<in>set [15, 45]. count_list [15, 45::real] d \<le> count_list [15, 45] m \<and>
         (count_list [15, 45::real] d = count_list [15, 45] m \<longrightarrow> m \<le> d)"
    unfolding c by auto
  have "m = 15" using m(2,3) by auto
  then show ?thesis using h m(1) by (simp add: periods_per_hour_def)
qed

text \<open>
  Claim C7 as stated fails: timestamps at 0, 15 and 60 minutes have the deltas 15 and 45,
  none of them repeated, and the estimator returns 15 minutes (4 periods per hour), not
  the default of 30 minutes.
\<close>

theorem detect_mode_interval_no_repeat_counterexample:
  "consecutive_deltas [Some 0, Some 900, Some 3600] = [15, 45] \<and>
   distinct (consecutive_deltas [Some 0, Some 900, Some 3600]) \<and>
   detect_mode_interval ex_irregular \<noteq> Inr 30 \<and>
   detect_mode_interval ex_irregular = Inr 15"
  by (simp add: detect_mode_interval_def get_col_def ex_irregular_def diff_pd_def shift_pd_def
      sub_cell_def non_null_def mode_pd_def)

section \<open>Transforms on frames that lack an input column\<close>

lemma fold_res_first_error:
  assumes "xs \<noteq> []" and "\<And>x. \<exists>e. f x s = Inl e"
  shows "\<exists>e. fold_res f xs s = Inl e"
proof (cases xs)
  case Nil
  then show ?thesis using assms(1) by simp
next
  case (Cons x rest)
  from assms(2) [of x] obtain e where "f x s = Inl e" by blast
  then show ?thesis using Cons by simp
qed

lemma get_col_absent: "\<not> has_col df c \<Longrightarrow> get_col df c = Inl KeyError"
  by (cases "map_of (cols df) c") (simp_all add: has_col_def get_col_def)

lemma map_of_absent: "\<not> has_col df c \<Longrightarrow> map_of (cols df) c = None"
  by (cases "map_of (cols df) c") (simp_all add: has_col_def)

lemma lag_single_step_no_level:
  "\<not> has_col df ''water_level'' \<Longrightarrow> \<exists>e. lag_single_step pph lag df = Inl e"
  by (simp add: lag_single_step_def get_col_absent split: sum.splits)

lemma change_single_step_no_level:
  "\<not> has_col df ''water_level'' \<Longrightarrow> \<exists>e. change_single_step pph period df = Inl e"
  by (simp add: change_single_step_def get_col_absent split: sum.splits)

lemma rolling_single_step_no_level:
  assumes "\<not> has_col df ''water_level''" and "''mean'' \<in> set stats \<or> ''std'' \<in> set stats"
  shows "\<exists>e. rolling_single_step pph stats mp window df = Inl e"
proof -
  have r: "\<And>stat agg w wp. rolling_single_stat stat agg w wp mp df = Inl KeyError"
    using assms(1) by (simp add: rolling_single_stat_def get_col_absent)
  show ?thesis
    using assms(2) by (auto simp: rolling_single_step_def r split: sum.splits)
qed

lemma single_branch_error:
  assumes "\<And>pph. \<exists>e. fold_res (step pph) xs df = Inl e"
  shows "\<exists>e. (case sort_values df ''measured_at'' of Inl e \<Rightarrow> Inl e
            | Inr sorted_df \<Rightarrow>
                (case detect_mode_interval sorted_df of Inl e \<Rightarrow> Inl e
                 | Inr mode_interval \<Rightarrow> fold_res (step (periods_per_hour mode_interval)) xs df)) = Inl e"
  using assms by (auto split: sum.splits)

text \<open>
  Claim C5, as amended. The rainfall transform returns the frame unchanged when
  \<open>rainfall_1h\<close> is absent, and the weather-interaction transform returns it unchanged
  when \<open>pressure\<close> and one of \<open>temperature\<close> and \<open>humidity\<close> are absent. The other
  transforms have no such guard: the time transform raises \<open>KeyError\<close> without
  \<open>measured_at\<close>, the station statistics raise \<open>KeyError\<close> without \<open>water_level\<close>, and
  on a frame without \<open>water_level\<close> that holds a single station the lag, rolling and
  rate-of-change transforms return the frame unchanged only when it has at most one row
  and raise an error when it has more rows and a feature is configured.
\<close>

theorem transforms_on_missing_input:
  "(\<not> has_col df ''rainfall_1h'' \<longrightarrow> apply_rainfall_features df config = Inr df) \<and>
   (\<not> has_col df ''pressure'' \<and> (\<not> has_col df ''temperature'' \<or> \<not> has_col df ''humidity'') \<longrightarrow>
      apply_weather_interactions df config = Inr df) \<and>
   (\<not> has_col df ''measured_at'' \<longrightarrow> apply_time_features df config = Inl KeyError) \<and>
   (\<not> has_col df ''water_level'' \<longrightarrow> apply_station_statistics df config = Inl KeyError) \<and>
   (\<not> has_col df ''water_level'' \<and> \<not> has_multiple_stations df \<and> nrows df \<le> 1 \<longrightarrow>
      apply_lag_features df config = Inr df \<and> apply_rolling_statistics df config = Inr df \<and>
      apply_rate_of_change df config = Inr df) \<and>
   (\<not> has_col df ''water_level'' \<and> \<not> has_multiple_stations df \<and> nrows df > 1 \<longrightarrow>
      (cfg_get (cfg_lag_periods config) [1, 2, 3, 6, 12] \<noteq> [] \<longrightarrow>
         (\<exists>e. apply_lag_features df config = Inl e)) \<and>
      (cfg_get (cfg_windows config) [3, 6, 12, 24] \<noteq> [] \<and>
       (''mean'' \<in> set (cfg_get (cfg_statistics config) [''mean'', ''std'']) \<or>
        ''std'' \<in> set (cfg_get (cfg_statistics config) [''mean'', ''std''])) \<longrightarrow>
         (\<exists>e. apply_rolling_statistics df config = Inl e)) \<and>
      (cfg_get (cfg_periods config) [1, 3, 6] \<noteq> [] \<longrightarrow>
         (\<exists>e. apply_rate_of_change df config = Inl e)))"
proof (intro conjI impI)
  assume "\<not> has_col df ''rainfall_1h''"
  then show "apply_rainfall_features df config = Inr df"
    by (simp add: apply_rainfall_features_def)
next
  assume "\<not> has_col df ''pressure'' \<and> (\<not> has_col df ''temperature'' \<or> \<not> has_col df ''humidity'')"
  then show "apply_weather_interactions df config = Inr df"
    by (auto simp: apply_weather_interactions_def map_of_absent split: option.splits)
next
  assume "\<not> has_col df ''measured_at''"
  then show "apply_time_features df config = Inl KeyError"
    by (simp add: apply_time_features_def get_col_absent)
next
  assume "\<not> has_col df ''water_level''"
  then show "apply_station_statistics df config = Inl KeyError"
    by (simp add: apply_station_statistics_def get_col_absent)
next
  assume a: "\<not> has_col df ''water_level'' \<and> \<not> has_multiple_stations df \<and> nrows df \<le> 1"
  then show "apply_lag_features df config = Inr df"
    by (simp add: apply_lag_features_def)
  from a show "apply_rolling_statistics df config = Inr df"
    by (simp add: apply_rolling_statistics_def)
  from a show "apply_rate_of_change df config = Inr df"
    by (simp add: apply_rate_of_change_def)
next
  assume a: "\<not> has_col df ''water_level'' \<and> \<not> has_multiple_stations df \<and> 1 < nrows df"
    and ne: "cfg_get (cfg_lag_periods config) [1, 2, 3, 6, 12] \<noteq> []"
  have "\<And>pph. \<exists>e. fold_res (lag_single_step pph) (cfg_get (cfg_lag_periods config) [1, 2, 3, 6, 12]) df = Inl e"
    using a ne by (intro fold_res_first_error lag_single_step_no_level) auto
  from single_branch_error [of lag_single_step, OF this]
  show "\<exists>e. apply_lag_features df config = Inl e"
    using a by (simp add: apply_lag_features_def)
next
  assume a: "\<not> has_col df ''water_level'' \<and> \<not> has_multiple_stations df \<and> 1 < nrows df"
    and ne: "cfg_get (cfg_windows config) [3, 6, 12, 24] \<noteq> [] \<and>
       (''mean'' \<in> set (cfg_get (cfg_statistics config) [''mean'', ''std'']) \<or>
        ''std'' \<in> set (cfg_get (cfg_statistics config) [''mean'', ''std'']))"
  have "\<And>pph. \<exists>e. fold_res (\<lambda>w. rolling_single_step pph (cfg_get (cfg_statistics config) [''mean'', ''std''])
           (cfg_get (cfg_min_periods config) 1) w) (cfg_get (cfg_windows config) [3, 6, 12, 24]) df = Inl e"
    using a ne by (intro fold_res_first_error rolling_single_step_no_level) auto
  from single_branch_error [of "\<lambda>pph. rolling_single_step pph (cfg_get (cfg_statistics config) [''mean'', ''std''])
           (cfg_get (cfg_min_periods config) 1)", OF this]
  show "\<exists>e. apply_rolling_statistics df config = Inl e"
    using a by (simp add: apply_rolling_statistics_def)
next
  assume a: "\<not> has_col df ''water_level'' \<and> \<not> has_multiple_stations df \<and> 1 < nrows df"
    and ne: "cfg_get (cfg_periods config) [1, 3, 6] \<noteq> []"
  have "\<And>pph. \<exists>e. fold_res (change_single_step pph) (cfg_get (cfg_periods config) [1, 3, 6]) df = Inl e"
    using a ne by (intro fold_res_first_error change_single_step_no_level) auto
  from single_branch_error [of change_single_step, OF this]
  show "\<exists>e. apply_rate_of_change df config = Inl e"
    using a by (simp add: apply_rate_of_change_def)
qed

theorem transforms_on_missing_input_witness:
  "\<not> has_col ex_no_level ''rainfall_1h'' \<and>
   apply_rainfall_features ex_no_level empty_config = Inr ex_no_level \<and>
   \<not> has_col ex_no_level ''pressure'' \<and> \<not> has_col ex_no_level ''temperature'' \<and>
   apply_weather_interactions ex_no_level empty_config = Inr ex_no_level \<and>
   \<not> has_col ex_no_time ''measured_at'' \<and>
   apply_time_features ex_no_time empty_config = Inl KeyError \<and>
   \<not> has_col ex_no_level ''water_level'' \<and>
   apply_station_statistics ex_no_level empty_config = Inl KeyError \<and>
   \<not> has_multiple_stations ex_no_level \<and> 1 < nrows ex_no_level \<and>
   (\<exists>e. apply_lag_features ex_no_level empty_config = Inl e) \<and>
   (\<exists>e. apply_rolling_statistics ex_no_level empty_config = Inl e) \<and>
   (\<exists>e. apply_rate_of_change ex_no_level empty_config = Inl e)"
proof -
  have h: "\<not> has_col ex_no_level ''rainfall_1h''" "\<not> has_col ex_no_level ''pressure''"
    "\<not> has_col ex_no_level ''temperature''" "\<not> has_col ex_no_time ''measured_at''"
    "\<not> has_col ex_no_level ''water_level''" "\<not> has_multiple_stations ex_no_level"
    "1 < nrows ex_no_level"
    by (simp_all add: has_col_def ex_no_level_def ex_no_time_def has_multiple_stations_def)
  have c: "cfg_get (cfg_lag_periods empty_config) [1, 2, 3, 6, 12] \<noteq> []"
    "cfg_get (cfg_windows empty_config) [3, 6, 12, 24] \<noteq> []"
    "''mean'' \<in> set (cfg_get (cfg_statistics empty_config) [''mean'', ''std''])"
    "cfg_get (cfg_periods empty_config) [1, 3, 6] \<noteq> []"
    by (simp_all add: cfg_get_def empty_config_def)
  show ?thesis
    using h c transforms_on_missing_input [of ex_no_level empty_config]
      transforms_on_missing_input [of ex_no_time empty_config]
    by simp
qed

text \<open>
  Claim C5 as stated fails: on a two-row frame without \<open>water_level\<close> the lag transform
  raises \<open>KeyError\<close>, and on a frame without \<open>measured_at\<close> the time transform raises
  \<open>KeyError\<close>; neither returns the frame unchanged.
\<close>

theorem missing_input_raises_counterexample:
  "\<not> has_col ex_no_level ''water_level'' \<and>
   apply_lag_features ex_no_level empty_config = Inl KeyError \<and>
   apply_lag_features ex_no_level empty_config \<noteq> Inr ex_no_level \<and>
   \<not> has_col ex_no_time ''measured_at'' \<and>
   apply_time_features ex_no_time empty_config = Inl KeyError \<and>
   apply_time_features ex_no_time empty_config \<noteq> Inr ex_no_time"
proof -
  have s: "sort_values ex_no_level ''measured_at'' = Inr ex_no_level"
    by (simp add: sort_values_def get_col_def ex_no_level_def sort_perm_def take_rows_def upt_conv_Cons)
  have d: "detect_mode_interval ex_no_level = Inr 15"
    by (simp add: detect_mode_interval_def get_col_def ex_no_level_def diff_pd_def shift_pd_def
        sub_cell_def non_null_def mode_pd_def)
  have n: "nrows ex_no_level = 2" "\<not> has_multiple_stations ex_no_level"
    "get_col ex_no_level ''water_level'' = Inl KeyError"
    by (simp_all add: ex_no_level_def has_multiple_stations_def get_col_def)
  have l: "apply_lag_features ex_no_level empty_config = Inl KeyError"
    by (simp add: apply_lag_features_def s d n cfg_get_def empty_config_def
        periods_per_hour_def lag_single_step_def to_periods_def py_int_def)
  have t: "apply_time_features ex_no_time empty_config = Inl KeyError"
    by (simp add: apply_time_features_def get_col_def ex_no_time_def)
  show ?thesis using l t by (simp add: has_col_def ex_no_level_def ex_no_time_def)
qed

section \<open>Data cleaner\<close>

lemma fillna_no_null: "None \<notin> set xs \<Longrightarrow> fillna v xs = xs"
  by (induction xs) (auto simp: fillna_def split: option.splits)

lemma fillna_length [simp]: "length (fillna v xs) = length xs"
  by (simp add: fillna_def)

lemma fillna_some: "v \<noteq> None \<Longrightarrow> None \<notin> set (fillna v xs)"
  by (induction xs) (auto simp: fillna_def split: option.splits)

lemma fillna_none [simp]: "fillna None xs = xs"
  by (induction xs) (auto simp: fillna_def split: option.splits)

lemma median_list_some: "vs \<noteq> [] \<Longrightarrow> median_list vs \<noteq> None"
proof -
  assume "vs \<noteq> []"
  then have "length (sort vs) \<noteq> 0" by simp
  then show ?thesis
    by (cases "odd (length (sort vs))") (simp_all only: median_list_def Let_def if_False if_True option.distinct not_False_eq_True)
qed

lemma median_list_nil [simp]: "median_list [] = None"
  by (simp add: median_list_def)

lemma impute_col_map_of:
  "map_of (cols (impute_col agg c df)) =
   (map_of (cols df))(c := map_option (\<lambda>(ty, xs). (ty, fillna (agg (non_null xs)) xs)) (map_of (cols df) c))"
proof (cases "map_of (cols df) c")
  case None
  then show ?thesis by (auto simp: impute_col_def)
next
  case (Some v)
  obtain ty xs where v: "v = (ty, xs)" by (cases v)
  show ?thesis
  proof (cases "list_ex (\<lambda>x. x = None) xs")
    case True
    then show ?thesis using Some v by (auto simp: impute_col_def map_of_set_col)
  next
    case False
    then have "None \<notin> set xs" by (auto simp: list_ex_iff)
    then have "fillna (agg (non_null xs)) xs = xs" by (rule fillna_no_null)
    then show ?thesis using Some v False by (auto simp: impute_col_def)
  qed
qed

lemma impute_col_nrows [simp]: "nrows (impute_col agg c df) = nrows df"
  by (auto simp: impute_col_def split: option.splits)

lemma fold_impute_map_of:
  "distinct cs \<Longrightarrow>
   map_of (cols (fold (impute_col agg) cs df)) c =
     (if c \<in> set cs
      then map_option (\<lambda>(ty, xs). (ty, fillna (agg (non_null xs)) xs)) (map_of (cols df) c)
      else map_of (cols df) c)"
proof (induction cs arbitrary: df)
  case Nil
  then show ?case by simp
next
  case (Cons a cs)
  then show ?case by (simp add: impute_col_map_of)
qed

lemma fold_impute_nrows [simp]: "nrows (fold (impute_col agg) cs df) = nrows df"
  by (induction cs arbitrary: df) simp_all

lemma map_of_filter_rows:
  "map_of (cols (filter_rows msk df)) c =
     map_option (\<lambda>(ty, xs). (ty, select_rows msk xs)) (map_of (cols df) c)"
proof -
  have "cols (filter_rows msk df) = map (\<lambda>(k, v). (k, (\<lambda>(ty, xs). (ty, select_rows msk xs)) v)) (cols df)"
    by (simp add: filter_rows_def case_prod_unfold)
  then show ?thesis by (simp add: map_of_map)
qed

lemma names_filter_rows [simp]: "map fst (cols (filter_rows msk df)) = map fst (cols df)"
  by (simp add: filter_rows_def case_prod_unfold comp_def)

lemma select_rows_all: "select_rows (replicate (length xs) True) xs = xs"
proof -
  have "filter fst (zip (replicate (length xs) True) xs) = zip (replicate (length xs) True) xs"
    by (auto simp: filter_id_conv set_zip)
  then show ?thesis by (simp add: select_rows_def)
qed

lemma numeric_names_distinct:
  "distinct (map fst kvs) \<Longrightarrow> distinct (filter P (map fst (filter Q kvs)))"
  by (simp add: distinct_map_filter)

text \<open>
  Claim C10, as amended. With the default cleaning strategy the imputation also covers the
  target columns: after cleaning, a target column (as every numeric column other than the
  identifier and timestamp columns) holds, on the rows the cleaner keeps, its values with
  every null replaced by the median of its non-null values over those rows. Hence it has
  no null when at least one kept row has a value, and it stays entirely null when all
  kept rows are null: then there is no median to fill with.
\<close>

theorem clean_data_imputes_targets:
  assumes wf: "wf_frame df"
    and col: "map_of (cols df) c = Some (Number, xs)"
    and name: "c \<notin> set [''measured_at'', ''created_at'', ''id'', ''station_id'']"
    and strat: "cfg_get (cfg_missing_value_strategy config) ''median'' = ''median''"
  shows "map_of (cols (clean_data df config)) c =
      Some (Number, fillna (median_list (non_null (select_rows (kept_rows df config) xs)))
                      (select_rows (kept_rows df config) xs)) \<and>
    (non_null (select_rows (kept_rows df config) xs) \<noteq> [] \<longrightarrow>
       (\<exists>ys. map_of (cols (clean_data df config)) c = Some (Number, ys) \<and> None \<notin> set ys)) \<and>
    (non_null (select_rows (kept_rows df config) xs) = [] \<longrightarrow>
       map_of (cols (clean_data df config)) c = Some (Number, select_rows (kept_rows df config) xs))"
proof -
  let ?lag = "filter (\<lambda>c. contains_str c ''lag_'') (map fst (cols df))"
  let ?drop = "cfg_get (cfg_remove_rows_with_missing_lags config) True \<and> ?lag \<noteq> []"
  define df1 where "df1 = (if ?drop then dropna df ?lag else df)"
  let ?kept = "select_rows (kept_rows df config) xs"
  have lx: "length xs = nrows df" using wf col by (rule wf_col_length)
  have c1: "map_of (cols df1) c = Some (Number, ?kept)"
  proof (cases ?drop)
    case True
    then show ?thesis using col
      by (simp add: df1_def dropna_def map_of_filter_rows kept_rows_def)
  next
    case False
    then show ?thesis using col lx select_rows_all [of xs]
      by (auto simp: df1_def kept_rows_def)
  qed
  have n1: "map fst (cols df1) = map fst (cols df)"
    by (simp add: df1_def dropna_def)
  let ?num = "filter (\<lambda>c. c \<notin> set [''measured_at'', ''created_at'', ''id'', ''station_id''])
                (map fst (filter (\<lambda>(c, ty, xs). ty = Number) (cols df1)))"
  have dist: "distinct ?num"
    using wf n1 by (intro numeric_names_distinct) (simp add: wf_frame_def)
  have "(c, Number, ?kept) \<in> set (cols df1)" using c1 by (rule map_of_SomeD)
  then have "(c, Number, ?kept) \<in> set (filter (\<lambda>(c, ty, xs). ty = Number) (cols df1))" by simp
  then have "c \<in> set (map fst (filter (\<lambda>(c, ty, xs). ty = Number) (cols df1)))"
    by (metis fst_conv image_eqI set_map)
  then have mem: "c \<in> set ?num" using name by simp
  have cd: "clean_data df config = fold (impute_col median_list) ?num df1"
    using strat by (simp add: clean_data_def df1_def Let_def)
  have main: "map_of (cols (clean_data df config)) c =
      Some (Number, fillna (median_list (non_null ?kept)) ?kept)"
    using fold_impute_map_of [OF dist, of median_list df1 c] mem c1 by (simp add: cd)
  have some: "non_null ?kept \<noteq> [] \<Longrightarrow> None \<notin> set (fillna (median_list (non_null ?kept)) ?kept)"
    by (rule fillna_some) (rule median_list_some)
  have none: "non_null ?kept = [] \<Longrightarrow> fillna (median_list (non_null ?kept)) ?kept = ?kept"
    by simp
  show ?thesis using main some none by auto
qed

theorem clean_data_imputes_targets_witness:
  "wf_frame ex_short_targets \<and>
   map_of (cols ex_short_targets) ''target_15min'' = Some (Number, [Some 20, None]) \<and>
   cfg_get (cfg_missing_value_strategy empty_config) ''median'' = ''median'' \<and>
   map_of (cols (clean_data ex_short_targets empty_config)) ''target_15min'' =
     Some (Number, [Some 20, Some 20])"
proof -
  have h: "wf_frame ex_short_targets"
    "map_of (cols ex_short_targets) ''target_15min'' = Some (Number, [Some 20, None])"
    "''target_15min'' \<notin> set [''measured_at'', ''created_at'', ''id'', ''station_id'']"
    "cfg_get (cfg_missing_value_strategy empty_config) ''median'' = ''median''"
    by (simp_all add: wf_frame_def ex_short_targets_def cfg_get_def empty_config_def)
  have k: "kept_rows ex_short_targets empty_config = [True, True]"
    by (simp add: kept_rows_def ex_short_targets_def cfg_get_def empty_config_def numeral_2_eq_2)
  have f: "fillna (median_list (non_null (select_rows [True, True] [Some 20, None])))
      (select_rows [True, True] [Some 20, None]) = [Some 20, Some 20]"
    by (simp add: select_rows_def non_null_def median_list_def fillna_def)
  show ?thesis
    using h clean_data_imputes_targets [OF h] by (simp add: k f)
qed

text \<open>
  Claim C10 as stated fails: on a two-row series the target for the 60-minute horizon
  (a shift by four rows) is null in every row, the median of the column does not exist,
  and the nulls survive the cleaning.
\<close>

theorem clean_data_null_targets_counterexample:
  "create_targets ex_short (empty_config\<lparr>cfg_prediction_horizons := Some [15, 60]\<rparr>) = Inr ex_short_targets \<and>
   map_of (cols (clean_data ex_short_targets empty_config)) ''target_60min'' = Some (Number, [None, None])"
proof -
  have n: "\<not> has_multiple_stations ex_short"
    by (simp add: has_multiple_stations_def ex_short_def nunique_def non_null_def)
  have t: "target_name 15 = ''target_15min''" "target_name 60 = ''target_60min''"
    by (simp_all add: target_name_def str_int_def str_nat.simps digit_char_def)
  have s1: "target_step False 15 ex_short =
      Inr (set_col ex_short ''target_15min'' (Number, [Some 20, None]))"
    by (simp add: target_step_def t get_col_def ex_short_def shift_pd_def)
  have s2: "target_step False 60 (set_col ex_short ''target_15min'' (Number, [Some 20, None])) =
      Inr ex_short_targets"
    by (simp add: target_step_def t get_col_def set_col_def ex_short_def ex_short_targets_def shift_pd_def)
  have c: "create_targets ex_short (empty_config\<lparr>cfg_prediction_horizons := Some [15, 60]\<rparr>) = Inr ex_short_targets"
    by (simp add: create_targets_def cfg_get_def n s1 s2)
  have k: "map_of (cols (clean_data ex_short_targets empty_config)) ''target_60min'' = Some (Number, [None, None])"
    by (simp add: clean_data_def cfg_get_def empty_config_def ex_short_targets_def impute_col_def
        set_col_def non_null_def median_list_def fillna_def)
  show ?thesis using c k by simp
qed

section \<open>Inference feature preparer\<close>

lemma fold_res_cols:
  assumes step: "\<And>c X X'. f c X = Inr X' \<Longrightarrow>
      map_of (cols X') = (map_of (cols X))(c := g c (map_of (cols X) c))"
  shows "distinct cs \<Longrightarrow> fold_res f cs X = Inr X' \<Longrightarrow>
     map_of (cols X') c = (if c \<in> set cs then g c (map_of (cols X) c) else map_of (cols X) c)"
proof (induction cs arbitrary: X)
  case Nil
  then show ?case by simp
next
  case (Cons a cs)
  from Cons.prems(2) obtain X1 where X1: "f a X = Inr X1" "fold_res f cs X1 = Inr X'"
    by (auto split: sum.splits)
  have d: "distinct cs" "a \<notin> set cs" using Cons.prems(1) by auto
  from Cons.IH [OF d(1) X1(2)] step [OF X1(1)] d(2) show ?case by auto
qed

lemma fill_latest_map_of:
  assumes "fill_latest df c X = Inr X'"
  shows "map_of (cols X') = (map_of (cols X))(c :=
      map_option (\<lambda>(lty, l). (lty, fillna (case mean_list (non_null (col_cells df c)) of
                                              None \<Rightarrow> Some 0 | Some m \<Rightarrow> Some m) l))
        (map_of (cols X) c))"
proof -
  from assms obtain ty xs where g: "get_col df c = Inr (ty, xs)"
    by (auto simp: fill_latest_def split: sum.splits)
  then have cc: "col_cells df c = xs"
    by (auto simp: get_col_def col_cells_def split: option.splits)
  from assms g obtain lty l where l: "get_col X c = Inr (lty, l)"
    by (auto simp: fill_latest_def Let_def split: sum.splits if_splits)
  then have m: "map_of (cols X) c = Some (lty, l)"
    by (auto simp: get_col_def split: option.splits)
  show ?thesis
    using assms g l m cc
    by (auto simp: fill_latest_def Let_def map_of_set_col split: if_splits option.splits)
qed

lemma map_of_select_cols:
  "map_of (cols (select_cols cs df)) c = (if c \<in> set cs then map_of (cols df) c else None)"
proof -
  have "map_of (filter (\<lambda>(k, v). k \<in> set cs) kvs) c = (if c \<in> set cs then map_of kvs c else None)" for kvs :: "(string \<times> column) list"
    by (induction kvs) auto
  then show ?thesis by (simp add: select_cols_def)
qed

lemma map_of_take_rows:
  "map_of (cols (take_rows idx df)) c =
     map_option (\<lambda>(ty, xs). (ty, map ((!) xs) idx)) (map_of (cols df) c)"
proof -
  have "cols (take_rows idx df) = map (\<lambda>(k, v). (k, (\<lambda>(ty, xs). (ty, map ((!) xs) idx)) v)) (cols df)"
    by (simp add: take_rows_def case_prod_unfold)
  then show ?thesis by (simp add: map_of_map)
qed

lemma names_take_rows [simp]: "map fst (cols (take_rows idx df)) = map fst (cols df)"
  by (simp add: take_rows_def case_prod_unfold comp_def)

lemma names_select_cols: "map fst (cols (select_cols cs df)) = filter (\<lambda>c. c \<in> set cs) (map fst (cols df))"
  by (simp add: select_cols_def filter_map comp_def case_prod_unfold)

lemma distinct_names_filter:
  "distinct (map fst kvs) \<Longrightarrow> distinct (map fst (filter Q kvs))"
  by (simp add: distinct_map_filter)

text \<open>
  Claim C9, as amended. When the preparer succeeds, every feature of the latest row keeps
  its value when it has one; a null feature is filled with the mean of the non-null values
  of its column over the prepared frame when the column has such a value, and with the
  constant 0 when the whole column is null.
\<close>

theorem latest_features_fill:
  assumes wf: "wf_frame df"
    and ok: "latest_features df = Inr (Some (X, feats))"
    and col: "map_of (cols df) c = Some (ty, xs)"
    and feat: "c \<in> set feats"
  shows "map_of (cols X) c =
     Some (ty, [case last xs of Some v \<Rightarrow> Some v
                | None \<Rightarrow> (case mean_list (non_null xs) of Some m \<Rightarrow> Some m | None \<Rightarrow> Some 0)])"
proof -
  have n: "nrows df \<noteq> 0" using ok by (auto simp: latest_features_def split: if_splits)
  let ?tc = "filter (\<lambda>c. starts_with c ''target_'') (map fst (cols df))"
  let ?fc = "filter (\<lambda>c. c \<notin> set ?tc \<and>
       c \<notin> set [''measured_at'', ''id'', ''created_at'', ''fetched_at'', ''source'', ''status''] \<and>
       \<not> starts_with c ''target_'') (map fst (cols df))"
  let ?X0 = "take_rows [nrows df - 1] (select_cols ?fc df)"
  let ?nan = "map fst (filter (\<lambda>(c, ty, xs). list_ex (\<lambda>x. x = None) xs) (cols ?X0))"
  have fr: "fold_res (fill_latest df) ?nan ?X0 = Inr X" and fe: "feats = ?fc"
    using ok n by (auto simp: latest_features_def Let_def split: sum.splits)
  have lx: "length xs = nrows df" using wf col by (rule wf_col_length)
  have "xs \<noteq> []" using lx n by auto
  then have last: "last xs = xs ! (nrows df - 1)" using lx by (simp add: last_conv_nth)
  have x0: "map_of (cols ?X0) c = Some (ty, [last xs])"
    using col feat fe by (simp add: map_of_take_rows map_of_select_cols last)
  have "distinct (map fst (cols ?X0))"
    using wf by (simp add: names_select_cols wf_frame_def)
  then have dn: "distinct ?nan" by (rule distinct_names_filter)
  have cc: "col_cells df c = xs" using col by (simp add: col_cells_def)
  define fv where "fv = (case mean_list (non_null xs) of None \<Rightarrow> Some (0::real) | Some m \<Rightarrow> Some m)"
  define X0 where "X0 = ?X0"
  define nan where "nan = ?nan"
  have fold: "map_of (cols X) c =
      (if c \<in> set nan
       then map_option (\<lambda>(lty, l). (lty, fillna fv l)) (map_of (cols X0) c)
       else map_of (cols X0) c)"
    using fold_res_cols [where f = "fill_latest df" and c = c and
      g = "\<lambda>c. map_option (\<lambda>(lty, l). (lty, fillna (case mean_list (non_null (col_cells df c)) of
                                              None \<Rightarrow> Some 0 | Some m \<Rightarrow> Some m) l))",
      OF fill_latest_map_of dn fr]
    unfolding cc fv_def X0_def nan_def .
  have x0': "map_of (cols X0) c = Some (ty, [last xs])" using x0 by (simp only: X0_def)
  show ?thesis
  proof (cases "last xs")
    case None
    have "(c, ty, [last xs]) \<in> set (cols X0)" using x0' by (rule map_of_SomeD)
    then have "(c, ty, [last xs]) \<in> set (filter (\<lambda>(c, ty, xs). list_ex (\<lambda>x. x = None) xs) (cols X0))"
      using None by simp
    then have "fst (c, ty, [last xs]) \<in> set nan"
      unfolding nan_def X0_def set_map by (rule imageI)
    then have mem: "c \<in> set nan" by simp
    have "map_of (cols X) c = Some (ty, fillna fv [None])"
      using mem None by (simp only: fold x0' if_True option.map prod.case)
    moreover have "fillna fv [None] = [fv]" by (simp add: fillna_def)
    ultimately show ?thesis using None by (simp add: fv_def split: option.splits)
  next
    case (Some v)
    have "fillna fv [Some v] = [Some v]" by (simp add: fillna_def)
    then have "map_of (cols X) c = Some (ty, [Some v])"
      using Some by (cases "c \<in> set nan") (simp_all only: fold x0' if_True if_False option.map prod.case)
    then show ?thesis using Some by simp
  qed
qed

theorem latest_features_fill_witness:
  "wf_frame ex_latest \<and>
   latest_features ex_latest =
     Inr (Some (ex_latest_row, [''station_id'', ''water_level'', ''temperature'', ''rainfall_1h''])) \<and>
   map_of (cols ex_latest) ''temperature'' = Some (Number, [Some 30, None]) \<and>
   ''temperature'' \<in> set [''station_id'', ''water_level'', ''temperature'', ''rainfall_1h''] \<and>
   map_of (cols ex_latest_row) ''temperature'' = Some (Number, [Some 30])"
proof -
  have wf: "wf_frame ex_latest" by (simp add: wf_frame_def ex_latest_def)
  have x0: "take_rows [nrows ex_latest - 1]
      (select_cols [''station_id'', ''water_level'', ''temperature'', ''rainfall_1h''] ex_latest) =
      \<lparr>nrows = Suc 0, cols = [(''station_id'', Number, [Some 2]), (''water_level'', Number, [Some 20]),
        (''temperature'', Number, [None]), (''rainfall_1h'', Number, [None])]\<rparr>"
    by (simp add: take_rows_def select_cols_def ex_latest_def)
  have f1: "fill_latest ex_latest ''temperature''
      \<lparr>nrows = Suc 0, cols = [(''station_id'', Number, [Some 2]), (''water_level'', Number, [Some 20]),
        (''temperature'', Number, [None]), (''rainfall_1h'', Number, [None])]\<rparr> =
      Inr \<lparr>nrows = Suc 0, cols = [(''station_id'', Number, [Some 2]), (''water_level'', Number, [Some 20]),
        (''temperature'', Number, [Some 30]), (''rainfall_1h'', Number, [None])]\<rparr>"
    by (simp add: fill_latest_def get_col_def ex_latest_def non_null_def mean_list_def set_col_def fillna_def)
  have f2: "fill_latest ex_latest ''rainfall_1h''
      \<lparr>nrows = Suc 0, cols = [(''station_id'', Number, [Some 2]), (''water_level'', Number, [Some 20]),
        (''temperature'', Number, [Some 30]), (''rainfall_1h'', Number, [None])]\<rparr> = Inr ex_latest_row"
    by (simp add: fill_latest_def get_col_def ex_latest_def non_null_def mean_list_def set_col_def
        fillna_def ex_latest_row_def)
  have fc: "filter (\<lambda>c. c \<notin> set (filter (\<lambda>c. starts_with c ''target_'') (map fst (cols ex_latest))) \<and>
       c \<notin> set [''measured_at'', ''id'', ''created_at'', ''fetched_at'', ''source'', ''status''] \<and>
       \<not> starts_with c ''target_'') (map fst (cols ex_latest)) =
       [''station_id'', ''water_level'', ''temperature'', ''rainfall_1h'']"
    by (simp add: ex_latest_def)
  have n: "nrows ex_latest \<noteq> 0" by (simp add: ex_latest_def)
  have ok: "latest_features ex_latest =
     Inr (Some (ex_latest_row, [''station_id'', ''water_level'', ''temperature'', ''rainfall_1h'']))"
    unfolding latest_features_def Let_def fc x0 using n by (simp add: f1 f2)
  have col: "map_of (cols ex_latest) ''temperature'' = Some (Number, [Some 30, None])"
    by (simp add: ex_latest_def)
  have feat: "''temperature'' \<in> set [''station_id'', ''water_level'', ''temperature'', ''rainfall_1h'']"
    by simp
  show ?thesis
    using wf ok col feat latest_features_fill [OF wf ok col feat]
    by (simp add: non_null_def mean_list_def)
qed
text \<open>
  Claim C9 as stated fails: the station table holds two measurements of station 2 whose
  \<open>rainfall_1h\<close> is null (no weather observation matched), the weather merge fails, and
  the database enables the cleaning stage only. The preparer succeeds, the column
  \<open>rainfall_1h\<close> has no mean over the window, and the latest row is filled with the
  constant 0.
\<close>

theorem latest_fill_constant_counterexample:
  "prepare_latest_data_for_prediction [(''data_cleaning'', empty_config)] (Inl ValueError) ex_latest 900 (Some 2) =
     Inr (Some (ex_latest_row, [''station_id'', ''water_level'', ''temperature'', ''rainfall_1h''])) \<and>
   map_of (cols ex_latest_row) ''rainfall_1h'' = Some (Number, [Some 0]) \<and>
   col_cells ex_latest_clean ''rainfall_1h'' = [None, None] \<and>
   mean_list (non_null (col_cells ex_latest_clean ''rainfall_1h'')) = None"
proof -
  have sp: "sort_perm [Some 0, Some 900] = [0, 1]"
    by (simp add: sort_perm_def upt_conv_Cons)
  have sv: "sort_values ex_latest ''measured_at'' = Inr ex_latest"
    by (simp add: sort_values_def get_col_def ex_latest_def sp take_rows_def)
  have fr: "filter_rows [True, True] ex_latest = ex_latest"
    by (simp add: filter_rows_def ex_latest_def select_rows_def)
  have k: "station_keys ex_latest = [Some 2, Some 2]" "col_cells ex_latest ''measured_at'' = [Some 0, Some 900]"
    by (simp_all add: station_keys_def col_cells_def ex_latest_def)
  have sc: "set_col ex_latest ''measured_at'' (Datetime, [Some 0, Some 900]) = ex_latest"
    "drop_cols [''rainfall_7to7'', ''flow_rate'', ''rainfall''] ex_latest = ex_latest"
    "get_col ex_latest ''measured_at'' = Inr (Datetime, [Some 0, Some 900])"
    "nrows ex_latest = 2"
    by (simp_all add: set_col_def drop_cols_def get_col_def ex_latest_def)
  have t: "table_station_data (Some 2) (Some (- 2591100)) (Some 900) ex_latest = Inr ex_latest"
    by (simp add: table_station_data_def k bound_mask_def eq_mask_def fr sv sc)
  have g: "get_station_data (Some 2) (Some (- 2591100)) (Some 900) True (Inl ValueError) ex_latest =
      Inr ex_latest"
    by (simp add: get_station_data_def t)
  have c: "clean_data ex_latest empty_config = ex_latest_clean"
    by (simp add: clean_data_def cfg_get_def empty_config_def ex_latest_def impute_col_def
        set_col_def non_null_def median_list_def fillna_def ex_latest_clean_def)
  have r: "run_stages [(''data_cleaning'', empty_config)] [15] ex_latest = Inr ex_latest_clean"
    by (simp add: run_stages_def bind_res_def time_features_enabled_def c)
  have x0: "take_rows [nrows ex_latest_clean - 1]
      (select_cols [''station_id'', ''water_level'', ''temperature'', ''rainfall_1h''] ex_latest_clean) =
      \<lparr>nrows = Suc 0, cols = [(''station_id'', Number, [Some 2]), (''water_level'', Number, [Some 20]),
        (''temperature'', Number, [Some 30]), (''rainfall_1h'', Number, [None])]\<rparr>"
    by (simp add: take_rows_def select_cols_def ex_latest_clean_def)
  have f2: "fill_latest ex_latest_clean ''rainfall_1h''
      \<lparr>nrows = Suc 0, cols = [(''station_id'', Number, [Some 2]), (''water_level'', Number, [Some 20]),
        (''temperature'', Number, [Some 30]), (''rainfall_1h'', Number, [None])]\<rparr> = Inr ex_latest_row"
    by (simp add: fill_latest_def get_col_def ex_latest_clean_def non_null_def mean_list_def set_col_def
        fillna_def ex_latest_row_def)
  have fc: "filter (\<lambda>c. c \<notin> set (filter (\<lambda>c. starts_with c ''target_'') (map fst (cols ex_latest_clean))) \<and>
       c \<notin> set [''measured_at'', ''id'', ''created_at'', ''fetched_at'', ''source'', ''status''] \<and>
       \<not> starts_with c ''target_'') (map fst (cols ex_latest_clean)) =
       [''station_id'', ''water_level'', ''temperature'', ''rainfall_1h'']"
    by (simp add: ex_latest_clean_def)
  have n: "nrows ex_latest_clean \<noteq> 0" "has_col ex_latest_clean ''measured_at''"
    by (simp_all add: ex_latest_clean_def has_col_def)
  have l: "latest_features ex_latest_clean =
     Inr (Some (ex_latest_row, [''station_id'', ''water_level'', ''temperature'', ''rainfall_1h'']))"
    unfolding latest_features_def Let_def fc x0 using n by (simp add: f2)
  have p: "prepare_latest_data_for_prediction [(''data_cleaning'', empty_config)] (Inl ValueError) ex_latest 900 (Some 2) =
     Inr (Some (ex_latest_row, [''station_id'', ''water_level'', ''temperature'', ''rainfall_1h'']))"
    by (simp add: prepare_latest_data_for_prediction_def preprocess_data_def bind_res_def g r n l)
  have m: "map_of (cols ex_latest_row) ''rainfall_1h'' = Some (Number, [Some 0])"
    "col_cells ex_latest_clean ''rainfall_1h'' = [None, None]"
    by (simp_all add: ex_latest_row_def col_cells_def ex_latest_clean_def)
  show ?thesis using p m by (simp add: non_null_def mean_list_def)
qed

end
